theory Spec2Isabelle
  imports Main "HOL-Library.AList"
begin

section \<open>Shared Python notions\<close>

text \<open>
  Exceptions are values. The constructors are the exception classes the two commands can
  meet; \<open>KeyboardInterrupt\<close> and \<open>SystemExit\<close> derive from \<open>BaseException\<close> only, so a
  clause \<open>except Exception\<close> does not catch them.
\<close>

datatype exc =
    ValueError string
  | KeyError string
  | IndexError
  | TypeError string
  | AttributeError string
  | ChunkedEncodingError string
  | HTTPError nat
  | ConnectionError string
  | BadZipFile
  | DatabaseError string
  | CommandError string
  | KeyboardInterrupt
  | SystemExit nat

fun is_Exception :: "exc \<Rightarrow> bool" where
  "is_Exception KeyboardInterrupt = False"
| "is_Exception (SystemExit _) = False"
| "is_Exception _ = True"

text \<open>\<open>sep.join(xs)\<close> for strings.\<close>

fun join :: "string \<Rightarrow> string list \<Rightarrow> string" where
  "join sep [] = []"
| "join sep [x] = x"
| "join sep (x # y # ys) = x @ sep @ join sep (y # ys)"

text \<open>
  \<open>find_sub sub s\<close> looks for the first occurrence of \<open>sub\<close> in \<open>s\<close> and returns the text
  before it and the text after it.
\<close>

fun find_sub :: "string \<Rightarrow> string \<Rightarrow> (string \<times> string) option" where
  "find_sub sub [] = (if sub = [] then Some ([], []) else None)"
| "find_sub sub (c # cs) =
     (if take (length sub) (c # cs) = sub then Some ([], drop (length sub) (c # cs))
      else (case find_sub sub cs of
              None \<Rightarrow> None
            | Some (before, after) \<Rightarrow> Some (c # before, after)))"

text \<open>\<open>s.split(sep, maxsplit=1)\<close> for a non-empty separator: one or two parts.\<close>

definition split_once :: "string \<Rightarrow> string \<Rightarrow> string list" where
  "split_once sep s =
     (case find_sub sep s of None \<Rightarrow> [s] | Some (before, after) \<Rightarrow> [before, after])"

section \<open>The logcommand wrapper\<close>

subsection \<open>CommandLog and its handler\<close>

datatype CommandLogStatus = RUNNING | COMPLETED | FAILED

text \<open>
  A \<open>CommandLog\<close> object. \<open>log\<close> is the text field (it may be unset); \<open>logs\<close> is the
  attribute that \<open>teardown\<close> assigns. Timestamps are readings of the clock.
\<close>

record CommandLog =
  command :: string
  cmd_options :: "string option"
  status :: CommandLogStatus
  started :: nat
  completed :: "nat option"
  log :: "string option"
  logs :: "string option"

text \<open>A log record as the handler sees it: its level, and what it carries.\<close>

record LogRecord =
  levelno :: nat
  name :: string
  message :: string
  exc_info :: "exc option"

definition INFO :: nat where "INFO = 20"
definition ERROR :: nat where "ERROR = 40"
definition CRITICAL :: nat where "CRITICAL = 50"

definition terminator :: string where
  "terminator = [CHR 0x0A]"

text \<open>
  The handler object (\<open>self.log\<close> is \<open>hlog\<close> here, since \<open>log\<close> is the field of the
  \<open>CommandLog\<close>) together with the row that \<open>commandlog.save()\<close> last wrote.
\<close>

record CommandLogHandler =
  commandlog :: CommandLog
  hlog :: string
  errors :: nat
  saved :: CommandLog

text \<open>\<open>CommandLogHandler.__init__\<close>; the command log was just created, hence saved.\<close>

definition init_handler :: "CommandLog \<Rightarrow> CommandLogHandler" where
  "init_handler cl = \<lparr>commandlog = cl, hlog = [], errors = 0, saved = cl\<rparr>"

text \<open>Python truthiness of an optional string: \<open>None\<close> and the empty string are false.\<close>

fun truthy_opt :: "string option \<Rightarrow> bool" where
  "truthy_opt None = False"
| "truthy_opt (Some s) = (s \<noteq> [])"

text \<open>
  \<open>CommandLogHandler.emit\<close>. \<open>fmt\<close> is \<open>self.format\<close>, the formatter installed by
  \<open>handle\<close> (it renders the time and the traceback, which the model does not hold).
\<close>

definition emit :: "(LogRecord \<Rightarrow> string) \<Rightarrow> LogRecord \<Rightarrow> CommandLogHandler \<Rightarrow> CommandLogHandler" where
  "emit fmt record h =
     (let msg = fmt record;
          cl0 = commandlog h;
          cl1 = (if \<not> truthy_opt (log cl0) then cl0\<lparr>log := Some []\<rparr> else cl0);
          cl2 = cl1\<lparr>log := Some (the (log cl1) @ msg @ terminator)\<rparr>
      in h\<lparr>commandlog := cl2,
            hlog := hlog h @ msg @ terminator,
            errors := (if levelno record = ERROR \<or> levelno record = CRITICAL
                       then errors h + 1 else errors h),
            saved := cl2\<rparr>)"

text \<open>A run of \<open>emit\<close> calls, in the order of the records.\<close>

fun emit_all :: "(LogRecord \<Rightarrow> string) \<Rightarrow> CommandLogHandler \<Rightarrow> LogRecord list \<Rightarrow> CommandLogHandler" where
  "emit_all fmt h [] = h"
| "emit_all fmt h (r # rs) = emit_all fmt (emit fmt r h) rs"

text \<open>\<open>CommandLogHandler.teardown\<close>, at clock reading \<open>now\<close>.\<close>

definition teardown :: "nat \<Rightarrow> CommandLogHandler \<Rightarrow> CommandLogHandler" where
  "teardown now h =
     (let cl0 = commandlog h;
          cl1 = (if errors h > 0 then cl0\<lparr>status := FAILED\<rparr> else cl0\<lparr>status := COMPLETED\<rparr>);
          cl2 = (if hlog h \<noteq> [] \<and> \<not> truthy_opt (log cl1) then cl1\<lparr>logs := Some (hlog h)\<rparr> else cl1);
          cl3 = cl2\<lparr>completed := Some now\<rparr>
      in h\<lparr>commandlog := cl3, saved := cl3\<rparr>)"

text \<open>
  How the logging library hands a record to the handler: a handler with level \<open>INFO\<close>
  gets the records of at least that level.
\<close>

definition call_handler :: "(LogRecord \<Rightarrow> string) \<Rightarrow> CommandLogHandler \<Rightarrow> LogRecord \<Rightarrow> CommandLogHandler" where
  "call_handler fmt h record = (if levelno record \<ge> INFO then emit fmt record h else h)"

subsection \<open>Command.handle\<close>

text \<open>
  What the wrapper runs in: the formatter, the clock readings taken by \<open>handle\<close> and by
  \<open>teardown\<close>, the default of the \<open>log\<close> field of a new \<open>CommandLog\<close>, \<open>shlex.split\<close>,
  and \<open>call_command\<close>, which yields the log records that reach the root logger while the
  wrapped command runs and the exception it raised, if any.
\<close>

record lc_env =
  fmt :: "LogRecord \<Rightarrow> string"
  started_at :: nat
  completed_at :: nat
  log_default :: "string option"
  str_of :: "exc \<Rightarrow> string"
  shlex_split :: "string \<Rightarrow> exc + string list"
  call_command :: "string \<Rightarrow> string list \<Rightarrow> LogRecord list \<times> exc option"

text \<open>The record that \<open>logger.exception(err)\<close> logs on the root logger.\<close>

definition exception_record :: "exc \<Rightarrow> string \<Rightarrow> LogRecord" where
  "exception_record err text = \<lparr>levelno = ERROR, name = ''root'', message = text, exc_info = Some err\<rparr>"

text \<open>The first lines of \<open>handle\<close>: the command name and the rest of the line, if any.\<close>

definition parse_command :: "string list \<Rightarrow> string \<times> string option" where
  "parse_command argv =
     (let parsed_options = split_once '' '' (join '' '' argv)
      in if length parsed_options = 1 then (hd parsed_options, None)
         else (hd parsed_options, Some (parsed_options ! 1)))"

text \<open>The \<open>try\<close> block: \<open>shlex.split\<close> and the wrapped command both run inside it.\<close>

definition run_wrapped :: "lc_env \<Rightarrow> string \<Rightarrow> string option \<Rightarrow> LogRecord list \<times> exc option" where
  "run_wrapped env cmd opts =
     (if truthy_opt opts then
        (case shlex_split env (the opts) of
           Inl e \<Rightarrow> ([], Some e)
         | Inr args \<Rightarrow> call_command env cmd args)
      else call_command env cmd [])"

text \<open>
  \<open>Command.handle\<close>: the result is the exception that leaves \<open>handle\<close> (if any) and the
  handler, whose \<open>saved\<close> is the persisted \<open>CommandLog\<close> row.
\<close>

definition handle_logcommand :: "lc_env \<Rightarrow> string list \<Rightarrow> exc option \<times> CommandLogHandler" where
  "handle_logcommand env argv =
     (let (cmd, opts) = parse_command argv;
          command_log = \<lparr>command = cmd, cmd_options = opts, status = RUNNING,
                         started = started_at env, completed = None,
                         log = log_default env, logs = None\<rparr>;
          command_logger = init_handler command_log;
          (records, raised) = run_wrapped env cmd opts;
          h1 = foldl (call_handler (fmt env)) command_logger records
      in (case raised of
            None \<Rightarrow> (None, teardown (completed_at env) h1)
          | Some err \<Rightarrow>
              if is_Exception err then
                (Some err,
                 teardown (completed_at env)
                   (call_handler (fmt env) h1 (exception_record err (str_of env err))))
              else (Some err, h1)))"

section \<open>Python strings and dates, as import\_companies uses them\<close>

text \<open>
  Strings are lists of bytes here. \<open>str.strip()\<close> removes the ASCII characters that Python
  counts as white space (tab to carriage return, the separators \<open>0x1C\<close> to \<open>0x1F\<close>, and the
  space); white space outside ASCII is not modelled.
\<close>

definition is_space :: "char \<Rightarrow> bool" where
  "is_space c = (c \<in> set [CHR 0x09, CHR 0x0A, CHR 0x0B, CHR 0x0C, CHR 0x0D,
                            CHR 0x1C, CHR 0x1D, CHR 0x1E, CHR 0x1F, CHR 0x20])"

definition strip :: "string \<Rightarrow> string" where
  "strip s = rev (dropWhile is_space (rev (dropWhile is_space s)))"

definition startswith :: "string \<Rightarrow> string \<Rightarrow> bool" where
  "startswith s p = (take (length p) s = p)"

text \<open>\<open>s.replace(old, new)\<close>: every occurrence, from the left, without overlap.\<close>

function replace :: "string \<Rightarrow> string \<Rightarrow> string \<Rightarrow> string" where
  "replace old new [] = []"
| "replace old new (c # cs) =
     (if old \<noteq> [] \<and> take (length old) (c # cs) = old
      then new @ replace old new (drop (length old) (c # cs))
      else c # replace old new cs)"
  by pat_completeness auto
termination
  by (relation "measure (\<lambda>(old, new, s). length s)") auto

text \<open>\<open>s.split(c)\<close> for a separator of one character: always at least one part.\<close>

fun split_on :: "char \<Rightarrow> string \<Rightarrow> string list" where
  "split_on c [] = [[]]"
| "split_on c (x # xs) =
     (if x = c then [] # split_on c xs
      else (case split_on c xs of
              [] \<Rightarrow> [[x]]
            | p # ps \<Rightarrow> (x # p) # ps))"

definition is_digit :: "char \<Rightarrow> bool" where
  "is_digit c = (c \<in> set ''0123456789'')"

definition digit_val :: "char \<Rightarrow> nat" where
  "digit_val c = of_char c - 48"

text \<open>
  \<open>datetime.datetime.strptime(s, "%d/%m/%Y")\<close>. The library matches the whole string
  against day, \<open>/\<close>, month, \<open>/\<close>, year with
  day \<open>3[0-1]|[1-2]\d|0[1-9]|[1-9]| [1-9]\<close>, month \<open>1[0-2]|0[1-9]|[1-9]\<close> and year
  \<open>\d\d\d\d\<close>, then builds the date, which fails for a year 0 and for a day the month does
  not have. \<open>None\<close> stands for the \<open>ValueError\<close>; the result is (year, month, day).
\<close>

fun parse_day :: "string \<Rightarrow> nat option" where
  "parse_day [a, b] =
     (if a = CHR ''3'' \<and> (b = CHR ''0'' \<or> b = CHR ''1'') then Some (30 + digit_val b)
      else if (a = CHR ''1'' \<or> a = CHR ''2'') \<and> is_digit b then Some (10 * digit_val a + digit_val b)
      else if (a = CHR ''0'' \<or> a = CHR '' '') \<and> is_digit b \<and> b \<noteq> CHR ''0'' then Some (digit_val b)
      else None)"
| "parse_day [a] = (if is_digit a \<and> a \<noteq> CHR ''0'' then Some (digit_val a) else None)"
| "parse_day _ = None"

fun parse_month :: "string \<Rightarrow> nat option" where
  "parse_month [a, b] =
     (if a = CHR ''1'' \<and> (b = CHR ''0'' \<or> b = CHR ''1'' \<or> b = CHR ''2'') then Some (10 + digit_val b)
      else if a = CHR ''0'' \<and> is_digit b \<and> b \<noteq> CHR ''0'' then Some (digit_val b)
      else None)"
| "parse_month [a] = (if is_digit a \<and> a \<noteq> CHR ''0'' then Some (digit_val a) else None)"
| "parse_month _ = None"

fun parse_year :: "string \<Rightarrow> nat option" where
  "parse_year [a, b, c, d] =
     (if is_digit a \<and> is_digit b \<and> is_digit c \<and> is_digit d
      then Some (1000 * digit_val a + 100 * digit_val b + 10 * digit_val c + digit_val d)
      else None)"
| "parse_year _ = None"

definition is_leap :: "nat \<Rightarrow> bool" where
  "is_leap y = (y mod 4 = 0 \<and> (y mod 100 \<noteq> 0 \<or> y mod 400 = 0))"

definition days_in_month :: "nat \<Rightarrow> nat \<Rightarrow> nat" where
  "days_in_month y m =
     (if m = 2 then (if is_leap y then 29 else 28)
      else if m = 4 \<or> m = 6 \<or> m = 9 \<or> m = 11 then 30 else 31)"

definition strptime :: "string \<Rightarrow> (nat \<times> nat \<times> nat) option" where
  "strptime s =
     (case split_on CHR ''/'' s of
        [ds, ms, ys] \<Rightarrow>
          (case (parse_day ds, parse_month ms, parse_year ys) of
             (Some d, Some m, Some y) \<Rightarrow>
               if 1 \<le> y \<and> d \<le> days_in_month y m then Some (y, m, d) else None
           | _ \<Rightarrow> None)
      | _ \<Rightarrow> None)"

text \<open>
  \<open>zip_regex.match(link)\<close> for \<open>.*/BasicCompanyData-.*\.zip\<close>: \<open>match\<close> anchors at the
  start only and \<open>.\<close> does not cross a line feed, so the link matches when its first line
  holds \<open>/BasicCompanyData-\<close> and, after it, \<open>.zip\<close>.
\<close>

definition zip_regex_match :: "string \<Rightarrow> bool" where
  "zip_regex_match link =
     (case find_sub ''/BasicCompanyData-'' (takeWhile (\<lambda>c. c \<noteq> CHR 0x0A) link) of
        None \<Rightarrow> False
      | Some (before, after) \<Rightarrow> find_sub ''.zip'' after \<noteq> None)"

section \<open>import\_companies: data\<close>

text \<open>
  A field value of a row or of a model instance: \<open>None\<close>, a string, the \<open>datetime\<close> that
  \<open>clean_fields\<close> parses (year, month, day, at midnight), the \<open>date\<close> of a previous name,
  or a reading of the clock (\<open>self.now\<close>).
\<close>

datatype val = VNone | VStr string | VDatetime nat nat nat | VDate nat nat nat | VNow nat

text \<open>Python truthiness of a value.\<close>

fun truthy :: "val \<Rightarrow> bool" where
  "truthy VNone = False"
| "truthy (VStr s) = (s \<noteq> [])"
| "truthy _ = True"

text \<open>The three models that carry \<open>in_latest_update\<close> and go through \<open>add_record\<close>.\<close>

datatype model = Company | PreviousName | CompanySICCode

text \<open>
  A model instance: the values of its fields by name, and its \<open>in_latest_update\<close> flag.
  A foreign key holds the primary key of the object it points to (\<open>company\<close> holds the
  company's \<open>CompanyNumber\<close>, \<open>sic_code\<close> the code): Django compares and hashes model
  instances by primary key.
\<close>

record model_instance =
  attrs :: "(string \<times> val) list"
  in_latest_update :: bool

definition attr :: "model_instance \<Rightarrow> string \<Rightarrow> val" where
  "attr r f = (case map_of (attrs r) f of None \<Rightarrow> VNone | Some v \<Rightarrow> v)"

type_synonym key = "val list"

text \<open>
  Modelled from the spec: the model declarations (\<open>models.py\<close>) are not among the sources. The
  spec has previous names and SIC codes unique per (company, value), which is what
  \<open>MODEL_UPDATES\<close> names as \<open>unique_fields\<close>; \<open>Company\<close> has no \<open>unique_together\<close> and its
  primary key is \<open>CompanyNumber\<close>.
\<close>

fun unique_together :: "model \<Rightarrow> string list" where
  "unique_together Company = []"
| "unique_together PreviousName = [''company'', ''CompanyName'']"
| "unique_together CompanySICCode = [''company'', ''sic_code'']"

definition pk :: "model_instance \<Rightarrow> val" where
  "pk r = attr r ''CompanyNumber''"

text \<open>The tuple \<open>unique_fields\<close> that \<open>add_record\<close> computes.\<close>

definition unique_fields :: "model \<Rightarrow> model_instance \<Rightarrow> key" where
  "unique_fields m r =
     (if unique_together m \<noteq> [] then map (attr r) (unique_together m) else [pk r])"

text \<open>
  The database: one table per model, each row under its unique key, in the order of
  insertion, and the table of \<open>SICCode\<close> (code and title).
\<close>

record database =
  tables :: "model \<Rightarrow> (key \<times> model_instance) list"
  sic_table :: "(string \<times> string) list"

text \<open>What the command writes to its output.\<close>

datatype out =
    Write string
  | WriteERROR string
  | WriteSUCCESS string
  | Saving nat model
  | Saved nat model nat
  | ToKeep nat
  | ToDelete nat
  | Deleted nat model

text \<open>
  A response of the HTTP session: its status, whether the cache served it, the absolute
  links of its HTML (for the index page), and the ZIP archive in its content as
  \<open>zipfile\<close> and \<open>csv.DictReader\<close> read it: the CSV files by name, each a list of rows, a
  row giving each column a string or \<open>None\<close>; no archive when the content is not a ZIP file.
\<close>

type_synonym csv_row = "(string \<times> string option) list"

record response =
  status_code :: nat
  from_cache :: bool
  absolute_links :: "string list"
  archive :: "(string \<times> csv_row list) list option"

datatype session = CachedHTMLSession | HTMLSession

text \<open>
  What happened, in order: each call of \<open>add_record\<close> and each call of \<open>bulk_create\<close>
  with the records it was given. The source has no such variable; the properties below
  are stated over it.
\<close>

datatype event = Added model model_instance | BulkCreated model "model_instance list"

text \<open>The command object (\<open>self\<close>).\<close>

record command =
  records :: "(model \<times> (key \<times> model_instance) list) list"
  object_count :: "model \<Rightarrow> nat"
  now :: nat
  sic_code_cache :: "(string \<times> string) list"
  debug :: bool
  session :: "session option"
  files :: "(string \<times> response) list"
  stdout :: "out list"
  history :: "event list"

text \<open>\<open>Command.__init__\<close>, at clock reading \<open>t\<close>.\<close>

definition init_command :: "nat \<Rightarrow> command" where
  "init_command t = \<lparr>records = [], object_count = (\<lambda>m. 0), now = t, sic_code_cache = [],
     debug = False, session = None, files = [], stdout = [], history = []\<rparr>"

definition bulk_limit :: nat where
  "bulk_limit = 10000"

section \<open>import\_companies: batching\<close>

text \<open>
  \<open>self.records\<close> is a \<open>defaultdict(dict)\<close>: reading a model that is not there adds it
  with an empty dictionary. Dictionaries keep the order of insertion, and an assignment to
  a key that is there keeps its place, which is what \<open>AList.update\<close> does.
\<close>

definition records_get :: "command \<Rightarrow> model \<Rightarrow> (key \<times> model_instance) list" where
  "records_get st m = (case map_of (records st) m of None \<Rightarrow> [] | Some b \<Rightarrow> b)"

definition records_touch :: "model \<Rightarrow> command \<Rightarrow> command" where
  "records_touch m st = st\<lparr>records := AList.update m (records_get st m) (records st)\<rparr>"

definition stdout_write :: "out \<Rightarrow> command \<Rightarrow> command" where
  "stdout_write x st = st\<lparr>stdout := stdout st @ [x]\<rparr>"

text \<open>
  \<open>bulk_create\<close> with \<open>MODEL_UPDATES\<close>: every record is inserted, and on a conflict on
  the unique fields the row that is there gets the \<open>update_fields\<close> of the record. For
  \<open>PreviousName\<close> and \<open>CompanySICCode\<close> that is \<open>in_latest_update\<close> alone. For \<open>Company\<close>
  it is every field but \<open>CompanyNumber\<close> (the list is computed from \<open>Company._meta\<close>, which
  is not among the sources), so the record replaces the row. Constraint failures of the
  database are not modelled.
\<close>

definition upsert :: "model \<Rightarrow> (key \<times> model_instance) list \<Rightarrow> model_instance \<Rightarrow> (key \<times> model_instance) list" where
  "upsert m tbl r =
     (let k = unique_fields m r
      in case map_of tbl k of
           None \<Rightarrow> tbl @ [(k, r)]
         | Some old \<Rightarrow>
             AList.update k
               (if m = Company then r else old\<lparr>in_latest_update := in_latest_update r\<rparr>) tbl)"

definition bulk_create :: "model \<Rightarrow> model_instance list \<Rightarrow> database \<Rightarrow> database" where
  "bulk_create m rs db = db\<lparr>tables := (tables db)(m := foldl (upsert m) (tables db m) rs)\<rparr>"

text \<open>\<open>save_records\<close>.\<close>

definition save_records :: "model \<Rightarrow> command \<times> database \<Rightarrow> command \<times> database" where
  "save_records m = (\<lambda>(st, db).
     (let buf = records_get st m;
          st1 = stdout_write (Saving (length buf) m) st;
          db1 = bulk_create m (map snd buf) db;
          st2 = st1\<lparr>history := history st1 @ [BulkCreated m (map snd buf)]\<rparr>;
          st3 = st2\<lparr>object_count := (object_count st2)(m := object_count st2 m + length buf)\<rparr>;
          st4 = stdout_write (Saved (length buf) m (object_count st3 m)) st3
      in (st4\<lparr>records := AList.update m [] (records st4)\<rparr>, db1)))"

text \<open>
  \<open>save_all_records\<close>: the loop runs over the models in the order they entered
  \<open>self.records\<close>; \<open>save_records\<close> replaces the dictionary of the model at hand only, so
  each step sees the dictionary the loop started with.
\<close>

definition flush_step :: "command \<times> database \<Rightarrow> model \<times> (key \<times> model_instance) list \<Rightarrow> command \<times> database" where
  "flush_step s = (\<lambda>(m, buf). if length buf \<noteq> 0 then save_records m s else s)"

definition save_all_records :: "command \<times> database \<Rightarrow> command \<times> database" where
  "save_all_records = (\<lambda>(st, db). foldl flush_step (st, db) (records st))"

text \<open>
  \<open>add_record\<close>. The record arrives as an instance (\<open>parse_row\<close> passes a dictionary for
  two of the models, which \<open>model(**record)\<close> turns into one). Putting the key tuple into the
  dictionary hashes it, and Django refuses to hash a model instance whose primary key is
  \<open>None\<close>: a key that holds the company fails for a company without \<open>CompanyNumber\<close>.
  \<open>put_record\<close> is the assignment \<open>self.records[model][unique_fields] = record\<close>.
\<close>

definition put_record :: "model \<Rightarrow> model_instance \<Rightarrow> command \<Rightarrow> command" where
  "put_record m r st =
     (let st0 = st\<lparr>history := history st @ [Added m r]\<rparr>;
          k = unique_fields m r
      in st0\<lparr>records := AList.update m (AList.update k r (records_get st0 m)) (records st0)\<rparr>)"

definition add_record :: "model \<Rightarrow> model_instance \<Rightarrow> command \<times> database \<Rightarrow> exc + command \<times> database" where
  "add_record m r = (\<lambda>(st, db).
     if ''company'' \<in> set (unique_together m) \<and> attr r ''company'' = VNone
     then Inl (TypeError ''Model instances without primary key value are unhashable'')
     else
       (let st1 = put_record m r st;
            st2 = records_touch Company st1
        in if length (records_get st2 Company) \<ge> bulk_limit
           then Inr (save_all_records (st2, db))
           else Inr (st2, db)))"

text \<open>A run of \<open>add_record\<close> calls; an exception ends it.\<close>

fun add_records :: "(model \<times> model_instance) list \<Rightarrow> command \<times> database \<Rightarrow> exc + command \<times> database" where
  "add_records [] s = Inr s"
| "add_records ((m, r) # rest) s =
     (case add_record m r s of Inl e \<Rightarrow> Inl e | Inr s' \<Rightarrow> add_records rest s')"

section \<open>import\_companies: the command\<close>

text \<open>
  What the command runs in. \<open>session_get\<close> is \<open>session.get\<close> of the session in use: a
  response, or the exception raised. The three lookups are the tables of \<open>ch_api\<close>, which
  is not among the sources: each gives, for a key it holds, what \<open>clean_categories\<close> ends with
  (the \<open>value\<close> of the member found). \<open>Company_kwargs\<close> tells the names that
  \<open>Company(...)\<close> accepts (the model is in \<open>models.py\<close>, not among the sources).
  \<open>UPDATE_COMPANIES\<close> is the dictionary of \<open>_company_sql\<close>, not among the sources either: the
  title of each statement and what executing it does to the database.
\<close>

record ic_env =
  session_get :: "session \<Rightarrow> string \<Rightarrow> exc + response"
  COMPANY_CATEGORY_LOOKUP :: "val \<Rightarrow> val option"
  COMPANY_STATUS_LOOKUP :: "val \<Rightarrow> val option"
  ACCOUNTS_TYPE_LOOKUP :: "val \<Rightarrow> val option"
  Company_kwargs :: "string \<Rightarrow> bool"
  UPDATE_COMPANIES :: "(string \<times> (database \<Rightarrow> exc + database)) list"

text \<open>
  A step of the command: the exception raised, if any, and the command and the database
  as they are at that point.
\<close>

type_synonym outcome = "exc option \<times> command \<times> database"

definition and_then :: "outcome \<Rightarrow> (command \<times> database \<Rightarrow> outcome) \<Rightarrow> outcome" where
  "and_then r f = (case r of (None, s) \<Rightarrow> f s | (Some e, s) \<Rightarrow> (Some e, s))"

text \<open>A \<open>for\<close> loop whose body may raise.\<close>

fun for_each :: "('a \<Rightarrow> command \<times> database \<Rightarrow> outcome) \<Rightarrow> 'a list \<Rightarrow> command \<times> database \<Rightarrow> outcome" where
  "for_each body [] s = (None, s)"
| "for_each body (x # xs) s = and_then (body x s) (for_each body xs)"

subsection \<open>set\_session and fetch\_file\<close>

definition start_url :: string where
  "start_url = ''http://download.companieshouse.gov.uk/en_output.html''"

definition set_session :: "bool \<Rightarrow> command \<Rightarrow> command" where
  "set_session install_cache st =
     (if install_cache
      then (stdout_write (Write ''Using requests_cache'') st)\<lparr>session := Some CachedHTMLSession\<rparr>
      else st\<lparr>session := Some HTMLSession\<rparr>)"

text \<open>\<open>response.raise_for_status()\<close>: an \<open>HTTPError\<close> for a status from 400 to 599.\<close>

definition raise_for_status :: "response \<Rightarrow> exc option" where
  "raise_for_status r =
     (if 400 \<le> status_code r \<and> status_code r < 600 then Some (HTTPError (status_code r)) else None)"

text \<open>
  The body of the loop of \<open>fetch_file\<close> for one link. Only \<open>ChunkedEncodingError\<close> has an
  \<open>except\<close> clause; it can only come from \<open>session.get\<close>, before the assignment to
  \<open>self.files[link]\<close>.
\<close>

definition fetch_link :: "ic_env \<Rightarrow> session \<Rightarrow> string \<Rightarrow> command \<Rightarrow> exc + command" where
  "fetch_link env sess link st =
     (if zip_regex_match link then
        (let st1 = stdout_write (Write (''Fetching: '' @ link)) st
         in case session_get env sess link of
              Inl (ChunkedEncodingError err) \<Rightarrow>
                Inr (stdout_write (WriteERROR err)
                      (stdout_write (WriteERROR (''Error fetching: '' @ link)) st1))
            | Inl e \<Rightarrow> Inl e
            | Inr r \<Rightarrow>
                (let st2 = st1\<lparr>files := AList.update link r (files st1)\<rparr>;
                     st3 = stdout_write (Write (if from_cache r then ''From cache'' else ''From network'')) st2
                 in case raise_for_status r of
                      Some e \<Rightarrow> Inl e
                    | None \<Rightarrow> Inr st3))
      else Inr st)"

fun fetch_links :: "ic_env \<Rightarrow> session \<Rightarrow> string list \<Rightarrow> command \<Rightarrow> exc + command" where
  "fetch_links env sess [] st = Inr st"
| "fetch_links env sess (link # rest) st =
     (case fetch_link env sess link st of
        Inl e \<Rightarrow> Inl e
      | Inr st' \<Rightarrow> fetch_links env sess rest st')"

text \<open>
  \<open>fetch_file\<close>. \<open>absolute_links\<close> is a set in the source; the list gives the order in
  which the loop happens to visit it.
\<close>

definition fetch_file :: "ic_env \<Rightarrow> command \<Rightarrow> exc + command" where
  "fetch_file env st =
     (let st0 = st\<lparr>files := []\<rparr>
      in case session st0 of
           None \<Rightarrow> Inl (AttributeError ''session'')
         | Some sess \<Rightarrow>
             (case session_get env sess start_url of
                Inl e \<Rightarrow> Inl e
              | Inr response \<Rightarrow>
                  (case raise_for_status response of
                     Some e \<Rightarrow> Inl e
                   | None \<Rightarrow> fetch_links env sess (absolute_links response) st0)))"

subsection \<open>clean\_fields and clean\_categories\<close>

definition date_fields :: "string list" where
  "date_fields = [''DissolutionDate'', ''IncorporationDate'', ''Accounts_NextDueDate'',
     ''Accounts_LastMadeUpDate'', ''Returns_NextDueDate'', ''Returns_LastMadeUpDate'',
     ''ConfStmtNextDueDate'', ''ConfStmtLastMadeUpDate'']"

text \<open>
  The first line of \<open>parse_row\<close>: a dictionary comprehension over the columns, with the
  names stripped and their dots replaced; a name met again keeps its place and takes the
  later value.
\<close>

definition normalise_keys :: "csv_row \<Rightarrow> csv_row" where
  "normalise_keys row =
     foldl (\<lambda>acc (k, v). AList.update (replace ''.'' ''_'' (strip k)) v acc) [] row"

text \<open>
  \<open>clean_fields\<close> for one field. The command has no \<open>bool_fields\<close>, so that branch never
  runs. In the branch of the date fields the value is a non-empty string, and the
  \<open>ValueError\<close> of \<open>strptime\<close> is caught.
\<close>

definition clean_field :: "string \<Rightarrow> string option \<Rightarrow> val" where
  "clean_field f v =
     (case v of
        None \<Rightarrow> VNone
      | Some s \<Rightarrow>
          if s = [] then VNone
          else if f \<in> set date_fields then
            (case strptime (strip s) of
               Some (y, m, d) \<Rightarrow> VDatetime y m d
             | None \<Rightarrow> VNone)
          else VStr (replace [CHR 0x00] [] (strip s)))"

definition clean_fields :: "csv_row \<Rightarrow> (string \<times> val) list" where
  "clean_fields row = map (\<lambda>(f, v). (f, clean_field f v)) row"

text \<open>\<open>d.get(k)\<close> on a dictionary of values.\<close>

definition dict_get :: "(string \<times> val) list \<Rightarrow> string \<Rightarrow> val" where
  "dict_get d k = (case map_of d k of None \<Rightarrow> VNone | Some v \<Rightarrow> v)"

definition clean_category :: "(string \<times> val) list \<Rightarrow> string \<times> (val \<Rightarrow> val option) \<Rightarrow> (string \<times> val) list" where
  "clean_category row = (\<lambda>(field, lookup).
     AList.update field
       (case lookup (dict_get row field) of None \<Rightarrow> dict_get row field | Some v \<Rightarrow> v) row)"

definition clean_categories :: "ic_env \<Rightarrow> (string \<times> val) list \<Rightarrow> (string \<times> val) list" where
  "clean_categories env row =
     foldl clean_category row
       [(''CompanyCategory'', COMPANY_CATEGORY_LOOKUP env),
        (''CompanyStatus'', COMPANY_STATUS_LOOKUP env),
        (''Accounts_AccountCategory'', ACCOUNTS_TYPE_LOOKUP env)]"

subsection \<open>parse\_row\<close>

text \<open>The three local variables of the loop over the columns.\<close>

record row_acc =
  previous_names :: "(string \<times> (string \<times> val) list) list"
  sic_codes :: "string list"
  fields_acc :: "(string \<times> val) list"

text \<open>
  The body of the loop over the columns of \<open>parse_row\<close>, for the column \<open>k\<close> with value
  \<open>v\<close>. The \<open>SICCode\<close> objects are held by their code, in the cache (with the title) as in
  the list.
\<close>

definition parse_column :: "string \<times> val \<Rightarrow> row_acc \<times> command \<times> database \<Rightarrow> (exc + row_acc) \<times> command \<times> database" where
  "parse_column = (\<lambda>(k, v) (acc, st, db).
     if startswith k ''PreviousName_'' then
       (let pn = split_on CHR ''_'' k
        in if truthy v \<and> v \<noteq> VStr [] then
             (let names = (if pn ! 1 \<notin> fst ` set (previous_names acc)
                           then previous_names acc @ [(pn ! 1, [])] else previous_names acc);
                  inner = (case map_of names (pn ! 1) of None \<Rightarrow> [] | Some d \<Rightarrow> d)
              in if length pn < 3 then (Inl IndexError, st, db)
                 else if pn ! 2 = ''CONDATE'' then
                   (case v of
                      VStr s \<Rightarrow>
                        (case strptime s of
                           None \<Rightarrow> (Inl (ValueError ''time data does not match format''), st, db)
                         | Some (y, m, d) \<Rightarrow>
                             (Inr (acc\<lparr>previous_names :=
                                     AList.update (pn ! 1)
                                       (AList.update ''nameno'' (VStr (pn ! 1))
                                         (AList.update (pn ! 2) (VDate y m d) inner)) names\<rparr>),
                              st, db))
                    | _ \<Rightarrow> (Inl (TypeError ''strptime() argument 1 must be str''), st, db))
                 else (Inr (acc\<lparr>previous_names :=
                              AList.update (pn ! 1) (AList.update (pn ! 2) v inner) names\<rparr>),
                       st, db))
           else (Inr acc, st, db))
     else if startswith k ''SICCode_'' then
       (if truthy v then
          (case v of
             VStr s \<Rightarrow>
               if replace ''None Supplied'' [] s \<noteq> [] then
                 (let parts = split_once '' - '' s
                  in if length parts \<noteq> 2
                     then (Inl (ValueError ''not enough values to unpack (expected 2, got 1)''), st, db)
                     else
                       (let sic_code = strip (parts ! 0);
                            sic_title = strip (parts ! 1);
                            known = (sic_code \<in> fst ` set (sic_code_cache st));
                            db1 = (if known then db
                                   else db\<lparr>sic_table := AList.update sic_code sic_title (sic_table db)\<rparr>);
                            st1 = (if known then st
                                   else st\<lparr>sic_code_cache := sic_code_cache st @ [(sic_code, sic_title)]\<rparr>)
                        in (Inr (acc\<lparr>sic_codes := sic_codes acc @ [sic_code]\<rparr>), st1, db1)))
               else (Inr acc, st, db)
           | _ \<Rightarrow> (Inl (TypeError ''replace() of a value that is not a string''), st, db))
        else (Inr acc, st, db))
     else (Inr (acc\<lparr>fields_acc := AList.update k v (fields_acc acc)\<rparr>), st, db))"

fun parse_columns :: "(string \<times> val) list \<Rightarrow> row_acc \<times> command \<times> database \<Rightarrow> (exc + row_acc) \<times> command \<times> database" where
  "parse_columns [] (acc, st, db) = (Inr acc, st, db)"
| "parse_columns (c # cs) (acc, st, db) =
     (case parse_column c (acc, st, db) of
        (Inl e, st', db') \<Rightarrow> (Inl e, st', db')
      | (Inr acc', st', db') \<Rightarrow> parse_columns cs (acc', st', db'))"

text \<open>\<open>d[k]\<close> on a dictionary of values: a \<open>KeyError\<close> when the key is missing.\<close>

definition dict_item :: "(string \<times> val) list \<Rightarrow> string \<Rightarrow> exc + val" where
  "dict_item d k = (case map_of d k of None \<Rightarrow> Inl (KeyError k) | Some v \<Rightarrow> Inr v)"

text \<open>
  \<open>Company(**fields, last_updated=self.now, in_latest_update=True)\<close>: Python refuses a
  keyword given twice, Django a keyword that the model does not know.
\<close>

definition make_company :: "ic_env \<Rightarrow> command \<Rightarrow> (string \<times> val) list \<Rightarrow> exc + model_instance" where
  "make_company env st kwargs =
     (if ''last_updated'' \<in> fst ` set kwargs \<or> ''in_latest_update'' \<in> fst ` set kwargs
      then Inl (TypeError ''got multiple values for keyword argument'')
      else if \<exists>k \<in> fst ` set kwargs. \<not> Company_kwargs env k
      then Inl (TypeError ''Company() got unexpected keyword arguments'')
      else Inr \<lparr>attrs = kwargs @ [(''last_updated'', VNow (now st))], in_latest_update = True\<rparr>)"

text \<open>The loop over \<open>record["previous_names"]\<close>, for one previous name \<open>n\<close>.\<close>

definition add_previous_name :: "model_instance \<Rightarrow> (string \<times> val) list \<Rightarrow> command \<times> database \<Rightarrow> outcome" where
  "add_previous_name company n = (\<lambda>(st, db).
     case dict_item n ''CompanyName'' of
       Inl e \<Rightarrow> (Some e, st, db)
     | Inr cname \<Rightarrow>
         (case dict_item n ''CONDATE'' of
            Inl e \<Rightarrow> (Some e, st, db)
          | Inr condate \<Rightarrow>
              (case add_record PreviousName
                      \<lparr>attrs = [(''company'', pk company), (''CompanyName'', cname), (''ConDate'', condate)],
                       in_latest_update = True\<rparr> (st, db) of
                 Inl e \<Rightarrow> (Some e, st, db)
               | Inr s' \<Rightarrow> (None, s'))))"

text \<open>The loop over \<open>record["sic_codes"]\<close>, for one code \<open>s\<close>.\<close>

definition add_sic_code :: "model_instance \<Rightarrow> string \<Rightarrow> command \<times> database \<Rightarrow> outcome" where
  "add_sic_code company s = (\<lambda>(st, db).
     case add_record CompanySICCode
            \<lparr>attrs = [(''company'', pk company), (''sic_code'', VStr s)], in_latest_update = True\<rparr>
            (st, db) of
       Inl e \<Rightarrow> (Some e, st, db)
     | Inr s' \<Rightarrow> (None, s'))"

text \<open>
  \<open>parse_row\<close>. The list \<open>address1\<close> that the source builds is not used afterwards and
  building it cannot raise; it is left out.
\<close>

definition parse_row :: "ic_env \<Rightarrow> csv_row \<Rightarrow> command \<times> database \<Rightarrow> outcome" where
  "parse_row env row0 = (\<lambda>(st, db).
     (let row = clean_categories env (clean_fields (normalise_keys row0))
      in case parse_columns row (\<lparr>previous_names = [], sic_codes = [], fields_acc = []\<rparr>, st, db) of
           (Inl e, st1, db1) \<Rightarrow> (Some e, st1, db1)
         | (Inr acc, st1, db1) \<Rightarrow>
             (case make_company env st1
                     (filter (\<lambda>(k, v). k \<noteq> ''sic_codes'' \<and> k \<noteq> ''previous_names'') (fields_acc acc)) of
                Inl e \<Rightarrow> (Some e, st1, db1)
              | Inr company \<Rightarrow>
                  (case add_record Company company (st1, db1) of
                     Inl e \<Rightarrow> (Some e, st1, db1)
                   | Inr s2 \<Rightarrow>
                       and_then (for_each (add_previous_name company) (map snd (previous_names acc)) s2)
                         (for_each (add_sic_code company) (sic_codes acc))))))"

subsection \<open>parse\_file\<close>

text \<open>
  One CSV file of the archive: the rows in order (the first 101 of them under \<open>debug\<close>,
  where the loop breaks once the index has reached 100), then \<open>save_all_records\<close>.
\<close>

definition parse_csv :: "ic_env \<Rightarrow> string \<times> csv_row list \<Rightarrow> command \<times> database \<Rightarrow> outcome" where
  "parse_csv env = (\<lambda>(filename, rows) (st, db).
     (let st1 = stdout_write (Write (''Opening: '' @ filename)) st
      in and_then (for_each (parse_row env) (if debug st1 then take 101 rows else rows) (st1, db))
           (\<lambda>s. (None, save_all_records s))))"

definition parse_file :: "ic_env \<Rightarrow> string \<times> response \<Rightarrow> command \<times> database \<Rightarrow> outcome" where
  "parse_file env = (\<lambda>(source_url, response) (st, db).
     (let st1 = stdout_write (Write (''Opening: '' @ source_url)) st
      in case archive response of
           None \<Rightarrow> (Some BadZipFile, st1, db)
         | Some csvs \<Rightarrow> for_each (parse_csv env) csvs (st1, db)))"

subsection \<open>handle\<close>

record options =
  opt_cache :: bool
  opt_debug :: bool

text \<open>\<open>model.objects.update(in_latest_update=False)\<close>.\<close>

definition unflag :: "model \<Rightarrow> database \<Rightarrow> database" where
  "unflag m db =
     db\<lparr>tables := (tables db)(m := map (\<lambda>(k, r). (k, r\<lparr>in_latest_update := False\<rparr>)) (tables db m))\<rparr>"

definition unflag_all :: "database \<Rightarrow> database" where
  "unflag_all db = unflag PreviousName (unflag CompanySICCode (unflag Company db))"

text \<open>
  The body of the loop over \<open>[CompanySICCode, PreviousName]\<close>: the two counts printed,
  then the rows that \<open>exclude(in_latest_update=True)\<close> selects are deleted.
\<close>

definition delete_stale :: "model \<Rightarrow> command \<times> database \<Rightarrow> outcome" where
  "delete_stale m = (\<lambda>(st, db).
     (let keep = filter (\<lambda>(k, r). in_latest_update r) (tables db m);
          gone = filter (\<lambda>(k, r). \<not> in_latest_update r) (tables db m);
          st1 = stdout_write (ToDelete (length gone)) (stdout_write (ToKeep (length keep)) st);
          db1 = db\<lparr>tables := (tables db)(m := keep)\<rparr>
      in (None, stdout_write (Deleted (length gone) m) st1, db1)))"

text \<open>The body of the loop over \<open>UPDATE_COMPANIES\<close>: \<open>cursor.execute(sql)\<close>.\<close>

definition execute_update :: "string \<times> (database \<Rightarrow> exc + database) \<Rightarrow> command \<times> database \<Rightarrow> outcome" where
  "execute_update = (\<lambda>(title, sql) (st, db).
     case sql db of
       Inl e \<Rightarrow> (Some e, st, db)
     | Inr db1 \<Rightarrow> (None, stdout_write (WriteSUCCESS (''Executed '' @ title)) st, db1))"

text \<open>What \<open>handle\<close> does inside \<open>transaction.atomic()\<close>, up to the end of the imports.\<close>

definition import_files :: "ic_env \<Rightarrow> options \<Rightarrow> command \<times> database \<Rightarrow> outcome" where
  "import_files env opts = (\<lambda>(st, db).
     (let db1 = unflag_all db;
          st1 = set_session (opt_cache opts) st
      in case fetch_file env st1 of
           Inl e \<Rightarrow> (Some e, st1, db1)
         | Inr st2 \<Rightarrow> for_each (parse_file env) (files st2) (st2, db1)))"

definition handle_body :: "ic_env \<Rightarrow> options \<Rightarrow> command \<times> database \<Rightarrow> outcome" where
  "handle_body env opts s =
     and_then (and_then (import_files env opts s)
                 (for_each delete_stale [CompanySICCode, PreviousName]))
       (for_each execute_update (UPDATE_COMPANIES env))"

text \<open>
  \<open>transaction.atomic()\<close> around a block: when the block raises, the database goes back
  to what it was on entry and the exception goes on.
\<close>

definition atomic :: "(command \<times> database \<Rightarrow> outcome) \<Rightarrow> command \<times> database \<Rightarrow> outcome" where
  "atomic block = (\<lambda>(st, db).
     case block (st, db) of
       (Some e, st', db') \<Rightarrow> (Some e, st', db)
     | (None, st', db') \<Rightarrow> (None, st', db'))"

definition handle :: "ic_env \<Rightarrow> options \<Rightarrow> command \<times> database \<Rightarrow> outcome" where
  "handle env opts = (\<lambda>(st, db). atomic (handle_body env opts) (st\<lparr>debug := opt_debug opts\<rparr>, db))"

section \<open>Notions used to state and prove the properties\<close>

text \<open>
  The dictionaries of \<open>self.records\<close> are well formed: every model is there once, every
  key is there once per model, and each record sits under its own unique fields.
\<close>

definition buffers_ok :: "command \<Rightarrow> bool" where
  "buffers_ok st =
     (distinct (map fst (records st))
      \<and> (\<forall>m. distinct (map fst (records_get st m))
              \<and> (\<forall>(k, r) \<in> set (records_get st m). k = unique_fields m r)))"


text \<open>The record that the last \<open>add_record\<close> call for key \<open>k\<close> of model \<open>m\<close> passed.\<close>

fun last_added :: "event list \<Rightarrow> model \<Rightarrow> key \<Rightarrow> model_instance option" where
  "last_added [] m k = None"
| "last_added (e # es) m k =
     (case last_added es m k of
        Some r \<Rightarrow> Some r
      | None \<Rightarrow>
          (case e of
             Added m' r \<Rightarrow> if m' = m \<and> unique_fields m r = k then Some r else None
           | BulkCreated m' rs \<Rightarrow> None))"

fun is_Added :: "event \<Rightarrow> bool" where
  "is_Added (Added m r) = True"
| "is_Added (BulkCreated m rs) = False"

fun Added_call :: "model \<times> model_instance \<Rightarrow> event" where
  "Added_call (m, r) = Added m r"

text \<open>Every record in a dictionary is the last one added under its key.\<close>

definition buffers_latest :: "command \<Rightarrow> bool" where
  "buffers_latest st =
     (\<forall>m. \<forall>(k, r) \<in> set (records_get st m). last_added (history st) m k = Some r)"

text \<open>
  Every \<open>bulk_create\<close> in a history was given, for each key, the last record added under
  that key before it.
\<close>

definition flushes_latest :: "event list \<Rightarrow> bool" where
  "flushes_latest h =
     (\<forall>n m rs. n < length h \<and> h ! n = BulkCreated m rs \<longrightarrow>
        distinct (map (unique_fields m) rs)
        \<and> (\<forall>r \<in> set rs. last_added (take n h) m (unique_fields m r) = Some r))"

text \<open>The invariant of the batching code.\<close>

definition batch_inv :: "command \<Rightarrow> bool" where
  "batch_inv st = (buffers_ok st \<and> buffers_latest st \<and> flushes_latest (history st))"


text \<open>
  The exception that leaves the loop body of \<open>fetch_file\<close> for a link, if any: every
  exception of \<open>session.get\<close> but \<open>ChunkedEncodingError\<close>, and the \<open>HTTPError\<close> of
  \<open>raise_for_status\<close>.
\<close>

fun is_chunked :: "exc \<Rightarrow> bool" where
  "is_chunked (ChunkedEncodingError err) = True"
| "is_chunked _ = False"

definition escaping_error :: "ic_env \<Rightarrow> session \<Rightarrow> string \<Rightarrow> exc option" where
  "escaping_error env sess link =
     (if zip_regex_match link then
        (case session_get env sess link of
           Inl e \<Rightarrow> if is_chunked e then None else Some e
         | Inr r \<Rightarrow> raise_for_status r)
      else None)"

text \<open>The response that \<open>fetch_file\<close> keeps for a link, if any.\<close>

definition fetched :: "ic_env \<Rightarrow> session \<Rightarrow> string \<Rightarrow> response option" where
  "fetched env sess link =
     (if zip_regex_match link then
        (case session_get env sess link of Inl e \<Rightarrow> None | Inr r \<Rightarrow> Some r)
      else None)"

text \<open>
  A cleaned value of a \<open>SICCode\<close> column that the loop of \<open>parse_row\<close> passes over, and
  one on which the unpacking of \<open>split(" - ", maxsplit=1)\<close> fails.
\<close>

fun sic_skipped :: "val \<Rightarrow> bool" where
  "sic_skipped (VStr s) = (replace ''None Supplied'' [] s = [])"
| "sic_skipped VNone = True"
| "sic_skipped _ = False"

fun sic_malformed :: "val \<Rightarrow> bool" where
  "sic_malformed (VStr s) = (replace ''None Supplied'' [] s \<noteq> [] \<and> find_sub '' - '' s = None)"
| "sic_malformed _ = False"





definition all_flushed :: "command \<Rightarrow> bool" where
  "all_flushed st = (\<forall>m. records_get st m = [])"




subsection \<open>Concrete runs of the wrapper\<close>

definition demo_fmt :: "LogRecord \<Rightarrow> string" where
  "demo_fmt r = name r @ '': '' @ message r"

definition info_record :: LogRecord where
  "info_record = \<lparr>levelno = INFO, name = ''import'', message = ''started'', exc_info = None\<rparr>"

definition error_record :: LogRecord where
  "error_record = \<lparr>levelno = ERROR, name = ''import'', message = ''bad row'', exc_info = None\<rparr>"

definition demo_commandlog :: CommandLog where
  "demo_commandlog = \<lparr>command = ''import_companies'', cmd_options = None, status = RUNNING,
     started = 1, completed = None, log = None, logs = None\<rparr>"

fun demo_call_command :: "string \<Rightarrow> string list \<Rightarrow> LogRecord list \<times> exc option" where
  "demo_call_command cmd args =
     (if cmd = ''import_companies'' then ([info_record, error_record], None)
      else ([info_record], Some (CommandError ''Unknown command'')))"

definition demo_lc_env :: lc_env where
  "demo_lc_env = \<lparr>fmt = demo_fmt, started_at = 1, completed_at = 2, log_default = None,
     str_of = (\<lambda>e. ''error''), shlex_split = (\<lambda>s. Inr [s]),
     call_command = demo_call_command\<rparr>"

text \<open>A wrapped command that is interrupted from the keyboard before it logs anything.\<close>

fun interrupted_call_command :: "string \<Rightarrow> string list \<Rightarrow> LogRecord list \<times> exc option" where
  "interrupted_call_command cmd args = ([], Some KeyboardInterrupt)"

definition interrupted_lc_env :: lc_env where
  "interrupted_lc_env = \<lparr>fmt = demo_fmt, started_at = 1, completed_at = 2, log_default = None,
     str_of = (\<lambda>e. ''error''), shlex_split = (\<lambda>s. Inr [s]),
     call_command = interrupted_call_command\<rparr>"

subsection \<open>Concrete records and calls of add\_record\<close>

definition empty_db :: database where
  "empty_db = \<lparr>tables = (\<lambda>m. []), sic_table = []\<rparr>"

definition company_a :: model_instance where
  "company_a = \<lparr>attrs = [(''CompanyNumber'', VStr ''00000001''), (''CompanyName'', VStr ''ACME LTD'')],
     in_latest_update = True\<rparr>"

definition company_a2 :: model_instance where
  "company_a2 = \<lparr>attrs = [(''CompanyNumber'', VStr ''00000001''), (''CompanyName'', VStr ''ACME LIMITED'')],
     in_latest_update = True\<rparr>"

definition previous_name_a :: model_instance where
  "previous_name_a = \<lparr>attrs = [(''company'', VStr ''00000001''), (''CompanyName'', VStr ''ACME OLD''),
     (''ConDate'', VDate 2001 2 3)], in_latest_update = True\<rparr>"

definition demo_calls :: "(model \<times> model_instance) list" where
  "demo_calls = [(Company, company_a), (PreviousName, previous_name_a), (Company, company_a2)]"

text \<open>
  The \<open>i\<close>-th of a family of previous names of company \<open>00000001\<close>, pairwise different, and
  the calls of \<open>add_record\<close> for the first \<open>n\<close> of them.
\<close>

definition pn_record :: "nat \<Rightarrow> model_instance" where
  "pn_record i = \<lparr>attrs = [(''company'', VStr ''00000001''), (''CompanyName'', VStr (replicate i CHR ''A'')),
     (''ConDate'', VDate 2001 2 3)], in_latest_update = True\<rparr>"

fun pn_calls :: "nat \<Rightarrow> (model \<times> model_instance) list" where
  "pn_calls 0 = []"
| "pn_calls (Suc n) = pn_calls n @ [(PreviousName, pn_record n)]"

subsection \<open>Concrete sessions\<close>

definition zip_one :: string where
  "zip_one = ''http://download.companieshouse.gov.uk/BasicCompanyData-2023-05-01-part1_2.zip''"

definition zip_two :: string where
  "zip_two = ''http://download.companieshouse.gov.uk/BasicCompanyData-2023-05-01-part2_2.zip''"

definition index_page :: response where
  "index_page = \<lparr>status_code = 200, from_cache = False,
     absolute_links = [zip_one, ''http://download.companieshouse.gov.uk/en_pscdata.html'', zip_two],
     archive = None\<rparr>"

definition empty_zip :: response where
  "empty_zip = \<lparr>status_code = 200, from_cache = False, absolute_links = [], archive = Some []\<rparr>"

definition not_found :: response where
  "not_found = \<lparr>status_code = 404, from_cache = False, absolute_links = [], archive = None\<rparr>"

text \<open>A session whose first download breaks off in the middle of a chunked body.\<close>

definition get_chunked :: "session \<Rightarrow> string \<Rightarrow> exc + response" where
  "get_chunked sess url =
     (if url = start_url then Inr index_page
      else if url = zip_one then Inl (ChunkedEncodingError ''Connection broken'')
      else Inr empty_zip)"

text \<open>A session whose first download is answered with status 404.\<close>

definition get_404 :: "session \<Rightarrow> string \<Rightarrow> exc + response" where
  "get_404 sess url =
     (if url = start_url then Inr index_page
      else if url = zip_one then Inr not_found
      else Inr empty_zip)"

text \<open>A session whose first download cannot connect.\<close>

definition get_refused :: "session \<Rightarrow> string \<Rightarrow> exc + response" where
  "get_refused sess url =
     (if url = start_url then Inr index_page
      else if url = zip_one then Inl (ConnectionError ''Connection refused'')
      else Inr empty_zip)"

definition env_with :: "(session \<Rightarrow> string \<Rightarrow> exc + response) \<Rightarrow> ic_env" where
  "env_with g = \<lparr>session_get = g,
     COMPANY_CATEGORY_LOOKUP = (\<lambda>v. None), COMPANY_STATUS_LOOKUP = (\<lambda>v. None),
     ACCOUNTS_TYPE_LOOKUP = (\<lambda>v. None), Company_kwargs = (\<lambda>k. True), UPDATE_COMPANIES = []\<rparr>"

subsection \<open>Concrete rows\<close>

definition row_bad_condate :: csv_row where
  "row_bad_condate = [(''CompanyName'', Some ''ACME LTD''), ('' CompanyNumber'', Some ''00000001''),
     ('' PreviousName_1.CONDATE'', Some ''31/02/2001''),
     ('' PreviousName_1.CompanyName'', Some ''ACME OLD'')]"

definition row_bad_dissolution :: csv_row where
  "row_bad_dissolution = [(''CompanyName'', Some ''ACME LTD''), ('' CompanyNumber'', Some ''00000001''),
     (''DissolutionDate'', Some ''31/02/2001'')]"

definition row_blank_sic :: csv_row where
  "row_blank_sic = [(''CompanyName'', Some ''ACME LTD''), ('' CompanyNumber'', Some ''00000001''),
     (''SICCode.SicText_1'', Some ''   '')]"

definition row_repeated_none :: csv_row where
  "row_repeated_none = [(''CompanyName'', Some ''ACME LTD''), ('' CompanyNumber'', Some ''00000001''),
     (''SICCode.SicText_1'', Some ''None SuppliedNone Supplied'')]"

definition row_no_separator :: csv_row where
  "row_no_separator = [(''CompanyName'', Some ''ACME LTD''), ('' CompanyNumber'', Some ''00000001''),
     (''SICCode.SicText_1'', Some ''62020 Information technology'')]"

subsection \<open>A concrete run of the import\<close>

definition row_acme :: csv_row where
  "row_acme = [(''CompanyName'', Some ''ACME LTD''), ('' CompanyNumber'', Some ''00000001''),
     ('' PreviousName_1.CONDATE'', Some ''03/02/2001''),
     ('' PreviousName_1.CompanyName'', Some ''ACME OLD''),
     (''SICCode.SicText_1'', Some ''62020 - Information technology consultancy activities'')]"

definition index_one :: response where
  "index_one = \<lparr>status_code = 200, from_cache = False, absolute_links = [zip_one], archive = None\<rparr>"



text \<open>A session that serves the same index and answers the download with status 404.\<close>

definition get_acme_404 :: "session \<Rightarrow> string \<Rightarrow> exc + response" where
  "get_acme_404 sess url = (if url = start_url then Inr index_one else Inr not_found)"

text \<open>
  A database left by an earlier run: company \<open>00000009\<close> and one previous name of it,
  both flagged.
\<close>

definition stale_company :: model_instance where
  "stale_company = \<lparr>attrs = [(''CompanyNumber'', VStr ''00000009''), (''CompanyName'', VStr ''GONE LTD'')],
     in_latest_update = True\<rparr>"

definition stale_name :: model_instance where
  "stale_name = \<lparr>attrs = [(''company'', VStr ''00000009''), (''CompanyName'', VStr ''GONE BEFORE''),
     (''ConDate'', VDate 1999 1 1)], in_latest_update = True\<rparr>"

fun stale_tables :: "model \<Rightarrow> (key \<times> model_instance) list" where
  "stale_tables Company = [([VStr ''00000009''], stale_company)]"
| "stale_tables PreviousName = [([VStr ''00000009'', VStr ''GONE BEFORE''], stale_name)]"
| "stale_tables CompanySICCode = []"

definition db_stale :: database where
  "db_stale = \<lparr>tables = stale_tables, sic_table = []\<rparr>"

definition opts_plain :: options where
  "opts_plain = \<lparr>opt_cache = False, opt_debug = False\<rparr>"

text \<open>The three records that \<open>parse_row\<close> builds from the row, at clock reading \<open>t\<close>.\<close>

definition acme_company :: "nat \<Rightarrow> model_instance" where
  "acme_company t = \<lparr>attrs = [(''CompanyName'', VStr ''ACME LTD''), (''CompanyNumber'', VStr ''00000001''),
       (''CompanyCategory'', VNone), (''CompanyStatus'', VNone), (''Accounts_AccountCategory'', VNone),
       (''last_updated'', VNow t)],
     in_latest_update = True\<rparr>"

definition acme_name :: model_instance where
  "acme_name = \<lparr>attrs = [(''company'', VStr ''00000001''), (''CompanyName'', VStr ''ACME OLD''),
       (''ConDate'', VDate 2001 2 3)],
     in_latest_update = True\<rparr>"

definition acme_sic :: model_instance where
  "acme_sic = \<lparr>attrs = [(''company'', VStr ''00000001''), (''sic_code'', VStr ''62020'')],
     in_latest_update = True\<rparr>"


text \<open>
  A session whose archive holds the row and, after it, a row whose \<open>CONDATE\<close> does not
  parse; and the run with it, with and without the transaction.
\<close>

definition zip_acme_bad :: response where
  "zip_acme_bad = \<lparr>status_code = 200, from_cache = False, absolute_links = [],
     archive = Some [(''BasicCompanyData-2023-05-01-part1_2.csv'', [row_acme, row_bad_condate])]\<rparr>"

definition get_acme_bad :: "session \<Rightarrow> string \<Rightarrow> exc + response" where
  "get_acme_bad sess url = (if url = start_url then Inr index_one else Inr zip_acme_bad)"

definition failed_run :: outcome where
  "failed_run = handle (env_with get_acme_bad) opts_plain (init_command 0, db_stale)"

definition failed_body :: outcome where
  "failed_body = handle_body (env_with get_acme_bad) opts_plain ((init_command 0)\<lparr>debug := False\<rparr>, db_stale)"

section \<open>Properties\<close>

subsection \<open>The logcommand wrapper\<close>

lemma errors_emit_all:
  "errors (emit_all f h rs) =
     errors h + length (filter (\<lambda>r. levelno r = ERROR \<or> levelno r = CRITICAL) rs)"
  by (induction rs arbitrary: h) (simp_all add: emit_def Let_def)

lemma errors_foldl_call_handler:
  "errors (foldl (call_handler f) h rs) =
     errors h + length (filter (\<lambda>r. levelno r = ERROR \<or> levelno r = CRITICAL) rs)"
  by (induction rs arbitrary: h) (simp_all add: call_handler_def emit_def Let_def INFO_def ERROR_def CRITICAL_def)

lemma status_teardown:
  "status (saved (teardown t h)) = (if errors h > 0 then FAILED else COMPLETED)"
  by (simp add: teardown_def Let_def)

lemma completed_teardown: "completed (saved (teardown t h)) = Some t"
  by (simp add: teardown_def Let_def)

lemma log_teardown: "log (saved (teardown t h)) = log (commandlog h)"
  by (simp add: teardown_def Let_def)

lemma log_emit:
  "log (commandlog (emit f r h)) =
     Some ((if truthy_opt (log (commandlog h)) then the (log (commandlog h)) else []) @ f r @ terminator)"
  by (simp add: emit_def Let_def)

lemma errors_emit_error: "levelno r = ERROR \<Longrightarrow> errors (emit f r h) = errors h + 1"
  by (simp add: emit_def Let_def)

text \<open>
  Claim C9. After \<open>teardown\<close>, the status of the saved \<open>CommandLog\<close> is
  \<open>COMPLETED\<close> exactly when none of the records emitted through the handler had level
  \<open>ERROR\<close> or \<open>CRITICAL\<close>. In particular, when the wrapped command returns without
  raising and one of the records it logged has level \<open>ERROR\<close>, \<open>handle\<close> returns
  normally and the saved status is \<open>FAILED\<close>.
\<close>

theorem teardown_completed_iff:
  "(status (saved (teardown t (emit_all f (init_handler cl) rs))) = COMPLETED)
     = (\<forall>r \<in> set rs. levelno r \<noteq> ERROR \<and> levelno r \<noteq> CRITICAL)
   \<and> (parse_command argv = (cmd, opts) \<and> run_wrapped env cmd opts = (recs, None)
        \<and> (\<exists>r \<in> set recs. levelno r = ERROR)
       \<longrightarrow> fst (handle_logcommand env argv) = None
           \<and> status (saved (snd (handle_logcommand env argv))) = FAILED)"
proof -
  have a: "(status (saved (teardown t (emit_all f (init_handler cl) rs))) = COMPLETED)
     = (\<forall>r \<in> set rs. levelno r \<noteq> ERROR \<and> levelno r \<noteq> CRITICAL)"
    by (simp add: status_teardown errors_emit_all init_handler_def filter_empty_conv)
  have b: "fst (handle_logcommand env argv) = None
           \<and> status (saved (snd (handle_logcommand env argv))) = FAILED"
    if "parse_command argv = (cmd, opts)" "run_wrapped env cmd opts = (recs, None)"
       "\<exists>r \<in> set recs. levelno r = ERROR"
  proof -
    from that(3) have "filter (\<lambda>r. levelno r = ERROR \<or> levelno r = CRITICAL) recs \<noteq> []"
      by (auto simp: filter_empty_conv)
    with that(1,2) show ?thesis
      by (simp add: handle_logcommand_def Let_def status_teardown errors_foldl_call_handler)
  qed
  from a b show ?thesis by blast
qed

theorem teardown_completed_iff_witness:
  "status (saved (teardown 2 (emit_all demo_fmt (init_handler demo_commandlog) [info_record]))) = COMPLETED
   \<and> status (saved (teardown 2 (emit_all demo_fmt (init_handler demo_commandlog) [info_record, error_record]))) \<noteq> COMPLETED
   \<and> fst (handle_logcommand demo_lc_env [''import_companies'']) = None
   \<and> status (saved (snd (handle_logcommand demo_lc_env [''import_companies'']))) = FAILED"
proof -
  have p: "parse_command [''import_companies''] = (''import_companies'', None)"
    by (simp add: parse_command_def split_once_def)
  have r: "run_wrapped demo_lc_env ''import_companies'' None = ([info_record, error_record], None)"
    by (simp add: run_wrapped_def demo_lc_env_def)
  have e: "\<exists>r \<in> set [info_record, error_record]. levelno r = ERROR"
    by (simp add: error_record_def)
  have a: "\<forall>r \<in> set [info_record]. levelno r \<noteq> ERROR \<and> levelno r \<noteq> CRITICAL"
    by (simp add: info_record_def INFO_def ERROR_def CRITICAL_def)
  have b: "\<not> (\<forall>r \<in> set [info_record, error_record]. levelno r \<noteq> ERROR \<and> levelno r \<noteq> CRITICAL)"
    by (simp add: error_record_def)
  note t1 = teardown_completed_iff [of 2 demo_fmt demo_commandlog "[info_record]"
      "[''import_companies'']" "''import_companies''" None demo_lc_env "[info_record, error_record]"]
  note t2 = teardown_completed_iff [of 2 demo_fmt demo_commandlog "[info_record, error_record]"
      "[''import_companies'']" "''import_companies''" None demo_lc_env "[info_record, error_record]"]
  from t1 a have c1: "status (saved (teardown 2 (emit_all demo_fmt (init_handler demo_commandlog) [info_record]))) = COMPLETED"
    by blast
  from t2 b have c2: "status (saved (teardown 2 (emit_all demo_fmt (init_handler demo_commandlog) [info_record, error_record]))) \<noteq> COMPLETED"
    by blast
  from t1 p r e have c3: "fst (handle_logcommand demo_lc_env [''import_companies'']) = None
      \<and> status (saved (snd (handle_logcommand demo_lc_env [''import_companies'']))) = FAILED"
    by blast
  from c1 c2 c3 show ?thesis by blast
qed

lemma call_handler_keeps:
  assumes "saved h = commandlog h"
  shows "saved (call_handler f h r) = commandlog (call_handler f h r)
       \<and> status (commandlog (call_handler f h r)) = status (commandlog h)
       \<and> completed (commandlog (call_handler f h r)) = completed (commandlog h)"
  using assms by (simp add: call_handler_def emit_def Let_def)

lemma foldl_call_handler_keeps:
  assumes "saved h = commandlog h"
  shows "saved (foldl (call_handler f) h rs) = commandlog (foldl (call_handler f) h rs)
       \<and> status (commandlog (foldl (call_handler f) h rs)) = status (commandlog h)
       \<and> completed (commandlog (foldl (call_handler f) h rs)) = completed (commandlog h)"
  using assms
proof (induction rs arbitrary: h)
  case Nil
  then show ?case by simp
next
  case (Cons r rs)
  note k = call_handler_keeps [OF Cons.prems, of f r]
  from Cons.IH [OF k [THEN conjunct1]] k show ?case by simp
qed

lemma handle_caught:
  assumes "parse_command argv = (cmd, opts)"
    and "run_wrapped env cmd opts = (recs, Some err)"
    and "is_Exception err"
  shows "\<exists>h pre. handle_logcommand env argv = (Some err, h)
           \<and> status (saved h) = FAILED
           \<and> completed (saved h) = Some (completed_at env)
           \<and> log (saved h) = Some (pre @ fmt env (exception_record err (str_of env err)) @ terminator)"
  using assms
  by (simp add: handle_logcommand_def Let_def status_teardown completed_teardown log_teardown
      call_handler_def exception_record_def INFO_def ERROR_def log_emit errors_emit_error)

lemma handle_not_caught:
  assumes "parse_command argv = (cmd, opts)"
    and "run_wrapped env cmd opts = (recs, Some err)"
    and "\<not> is_Exception err"
  shows "\<exists>h. handle_logcommand env argv = (Some err, h)
           \<and> status (saved h) = RUNNING
           \<and> completed (saved h) = None"
proof -
  let ?cl = "\<lparr>command = cmd, cmd_options = opts, status = RUNNING, started = started_at env,
              completed = None, log = log_default env, logs = None\<rparr>"
  have "saved (init_handler ?cl) = commandlog (init_handler ?cl)"
    by (simp add: init_handler_def)
  from foldl_call_handler_keeps [OF this, of "fmt env" recs]
  have "status (saved (foldl (call_handler (fmt env)) (init_handler ?cl) recs)) = RUNNING"
    and "completed (saved (foldl (call_handler (fmt env)) (init_handler ?cl) recs)) = None"
    by (simp_all add: init_handler_def)
  with assms show ?thesis
    by (simp add: handle_logcommand_def Let_def)
qed

text \<open>
  Claim C4, as amended. When the wrapped command (or the splitting of its options, inside
  the same \<open>try\<close>) raises an exception that \<open>except Exception\<close> catches, \<open>handle\<close>
  re-raises that same exception, and the saved \<open>CommandLog\<close> row has status \<open>FAILED\<close>, the
  completion time read by \<open>teardown\<close>, and a log text that ends with the formatted record
  of the exception. An exception that the clause does not catch (\<open>KeyboardInterrupt\<close>,
  \<open>SystemExit\<close>) leaves \<open>handle\<close> as it is, and the saved row stays \<open>RUNNING\<close> with no
  completion time.
\<close>

theorem handle_exception_logged:
  assumes "parse_command argv = (cmd, opts)"
    and "run_wrapped env cmd opts = (recs, Some err)"
  shows "(is_Exception err \<longrightarrow>
           (\<exists>h pre. handle_logcommand env argv = (Some err, h)
              \<and> status (saved h) = FAILED
              \<and> completed (saved h) = Some (completed_at env)
              \<and> log (saved h) = Some (pre @ fmt env (exception_record err (str_of env err)) @ terminator)))
       \<and> (\<not> is_Exception err \<longrightarrow>
           (\<exists>h. handle_logcommand env argv = (Some err, h)
              \<and> status (saved h) = RUNNING
              \<and> completed (saved h) = None))"
  using handle_caught [OF assms] handle_not_caught [OF assms] by blast

text \<open>
  Claim C4 as stated fails: a wrapped command interrupted from the keyboard raises
  \<open>KeyboardInterrupt\<close>, which \<open>except Exception\<close> does not catch; \<open>handle\<close> raises it, the
  saved row is still \<open>RUNNING\<close>, has no completion time, and nothing was logged into it.
\<close>

theorem handle_interrupt_counterexample:
  "fst (handle_logcommand interrupted_lc_env [''import_companies'']) = Some KeyboardInterrupt
   \<and> status (saved (snd (handle_logcommand interrupted_lc_env [''import_companies'']))) = RUNNING
   \<and> completed (saved (snd (handle_logcommand interrupted_lc_env [''import_companies'']))) = None
   \<and> log (saved (snd (handle_logcommand interrupted_lc_env [''import_companies'']))) = None"
proof -
  have p: "parse_command [''import_companies''] = (''import_companies'', None)"
    by (simp add: parse_command_def split_once_def)
  have r: "run_wrapped interrupted_lc_env ''import_companies'' None = ([], Some KeyboardInterrupt)"
    by (simp add: run_wrapped_def interrupted_lc_env_def)
  have h: "handle_logcommand interrupted_lc_env [''import_companies'']
      = (Some KeyboardInterrupt,
         init_handler \<lparr>command = ''import_companies'', cmd_options = None, status = RUNNING,
           started = started_at interrupted_lc_env, completed = None,
           log = log_default interrupted_lc_env, logs = None\<rparr>)"
    by (simp add: handle_logcommand_def p r Let_def)
  show ?thesis
    unfolding h by (simp add: init_handler_def interrupted_lc_env_def)
qed

theorem handle_exception_logged_witness:
  "parse_command [''nosuch'', ''--flag''] = (''nosuch'', Some ''--flag'')
   \<and> run_wrapped demo_lc_env ''nosuch'' (Some ''--flag'')
        = ([info_record], Some (CommandError ''Unknown command''))
   \<and> is_Exception (CommandError ''Unknown command'')
   \<and> (\<exists>h pre. handle_logcommand demo_lc_env [''nosuch'', ''--flag'']
            = (Some (CommandError ''Unknown command''), h)
        \<and> status (saved h) = FAILED
        \<and> completed (saved h) = Some 2
        \<and> log (saved h) = Some (pre @ ''root: error'' @ terminator))"
proof -
  have p: "parse_command [''nosuch'', ''--flag''] = (''nosuch'', Some ''--flag'')"
    by (simp add: parse_command_def split_once_def)
  have r: "run_wrapped demo_lc_env ''nosuch'' (Some ''--flag'')
        = ([info_record], Some (CommandError ''Unknown command''))"
    by (simp add: run_wrapped_def demo_lc_env_def)
  have e: "is_Exception (CommandError ''Unknown command'')" by simp
  have f: "fmt demo_lc_env (exception_record (CommandError ''Unknown command'')
             (str_of demo_lc_env (CommandError ''Unknown command''))) = ''root: error''"
    by (simp add: demo_lc_env_def demo_fmt_def exception_record_def)
  have c: "completed_at demo_lc_env = 2" by (simp add: demo_lc_env_def)
  from handle_exception_logged [OF p r, THEN conjunct1, rule_format, OF e] f c p r e
  show ?thesis by simp
qed

subsection \<open>Batching: add\_record and save\_all\_records\<close>

lemma records_get_update [simp]:
  "records_get (st\<lparr>records := AList.update m b (records st)\<rparr>) m' = (if m' = m then b else records_get st m')"
  by (simp add: records_get_def update_conv')

lemma records_get_stdout_write [simp]: "records_get (stdout_write x st) m = records_get st m"
  by (simp add: records_get_def stdout_write_def)

lemma records_get_history_update [simp]: "records_get (st\<lparr>history := h\<rparr>) m = records_get st m"
  by (simp add: records_get_def)

lemma records_get_object_count_update [simp]: "records_get (st\<lparr>object_count := c\<rparr>) m = records_get st m"
  by (simp add: records_get_def)

lemma records_get_touch [simp]: "records_get (records_touch m st) m' = records_get st m'"
  by (simp add: records_touch_def)

lemma history_touch [simp]: "history (records_touch m st) = history st"
  by (simp add: records_touch_def)

lemma keys_touch: "distinct (map fst (records (records_touch m st))) = distinct (map fst (records st))"
  by (simp add: records_touch_def update_keys)

lemma save_records_fst:
  "records (fst (save_records m (st, db))) = AList.update m [] (records st)"
  "history (fst (save_records m (st, db))) = history st @ [BulkCreated m (map snd (records_get st m))]"
  by (simp_all add: save_records_def Let_def stdout_write_def)

lemma save_records_get:
  "records_get (fst (save_records m s)) m' = (if m' = m then [] else records_get (fst s) m')"
  by (cases s) (simp add: records_get_def save_records_fst update_conv')


lemma records_get_nonempty_key:
  "records_get st m \<noteq> [] \<Longrightarrow> m \<in> fst ` set (records st)"
  by (auto simp: records_get_def split: option.splits dest: map_of_SomeD intro: rev_image_eqI)

lemma save_loop:
  assumes "distinct (map fst ms)" and "\<forall>(m, b) \<in> set ms. records_get (fst s) m = b"
  shows "(\<forall>m. records_get (fst (foldl flush_step s ms)) m
             = (if m \<in> fst ` set ms then [] else records_get (fst s) m))
       \<and> history (fst (foldl flush_step s ms))
             = history (fst s) @ map (\<lambda>(m, b). BulkCreated m (map snd b)) (filter (\<lambda>(m, b). b \<noteq> []) ms)
       \<and> map fst (records (fst (foldl flush_step s ms))) = map fst (records (fst s))"
  using assms
proof (induction ms arbitrary: s)
  case Nil
  then show ?case by simp
next
  case (Cons x ms)
  obtain m b where x: "x = (m, b)" by (cases x)
  obtain st db where s: "s = (st, db)" by (cases s)
  let ?s1 = "flush_step s (m, b)"
  have g: "records_get (fst ?s1) m' = (if m' = m then [] else records_get (fst s) m')" for m'
    using Cons.prems(2) by (auto simp: x flush_step_def save_records_get)
  have h: "history (fst ?s1) = history (fst s) @ (if b \<noteq> [] then [BulkCreated m (map snd b)] else [])"
    using Cons.prems(2) by (auto simp: x s flush_step_def save_records_fst)
  have k: "map fst (records (fst ?s1)) = map fst (records (fst s))"
  proof (cases "b = []")
    case True
    then show ?thesis by (simp add: x flush_step_def)
  next
    case False
    with Cons.prems(2) have "records_get st m \<noteq> []" by (simp add: x s)
    then have "m \<in> set (map fst (records st))"
      by (auto simp: records_get_def split: option.splits dest: map_of_SomeD intro: rev_image_eqI)
    with False show ?thesis
      by (simp add: x s flush_step_def save_records_fst update_keys)
  qed
  have d: "distinct (map fst ms)" and nm: "m \<notin> fst ` set ms"
    using Cons.prems(1) by (auto simp: x)
  have p: "\<forall>(m', b') \<in> set ms. records_get (fst ?s1) m' = b'"
  proof (intro ballI, clarify)
    fix m' b' assume mb: "(m', b') \<in> set ms"
    with nm have "m' \<noteq> m" by (auto intro: rev_image_eqI)
    moreover from mb Cons.prems(2) have "records_get (fst s) m' = b'" by auto
    ultimately show "records_get (fst ?s1) m' = b'" by (simp add: g)
  qed
  note IH = Cons.IH [OF d p]
  have fold: "foldl flush_step s (x # ms) = foldl flush_step ?s1 ms" by (simp add: x)
  have img: "fst ` set (x # ms) = insert m (fst ` set ms)" by (simp add: x)
  have flt: "map (\<lambda>(m, b). BulkCreated m (map snd b)) (filter (\<lambda>(m, b). b \<noteq> []) (x # ms))
      = (if b \<noteq> [] then [BulkCreated m (map snd b)] else [])
        @ map (\<lambda>(m, b). BulkCreated m (map snd b)) (filter (\<lambda>(m, b). b \<noteq> []) ms)"
    by (simp add: x)
  show ?case unfolding fold img flt using IH g h k by auto
qed

lemma save_all_records_eq: "save_all_records s = foldl flush_step s (records (fst s))"
  by (cases s) (simp add: save_all_records_def)

lemma save_all_records_props:
  assumes "distinct (map fst (records (fst s)))"
  shows "records_get (fst (save_all_records s)) m = []"
    and "history (fst (save_all_records s))
           = history (fst s) @ map (\<lambda>(m, b). BulkCreated m (map snd b))
                                 (filter (\<lambda>(m, b). b \<noteq> []) (records (fst s)))"
    and "map fst (records (fst (save_all_records s))) = map fst (records (fst s))"
proof -
  have p: "\<forall>(m, b) \<in> set (records (fst s)). records_get (fst s) m = b"
    using assms by (auto simp: records_get_def)
  note l = save_loop [OF assms p]
  have "records_get (fst s) m = []" if "m \<notin> fst ` set (records (fst s))"
    using that records_get_nonempty_key by blast
  with l show "records_get (fst (save_all_records s)) m = []"
    by (simp add: save_all_records_eq)
  from l show "history (fst (save_all_records s))
           = history (fst s) @ map (\<lambda>(m, b). BulkCreated m (map snd b))
                                 (filter (\<lambda>(m, b). b \<noteq> []) (records (fst s)))"
    by (simp add: save_all_records_eq)
  from l show "map fst (records (fst (save_all_records s))) = map fst (records (fst s))"
    by (simp add: save_all_records_eq)
qed


lemma set_update_subset: "set (AList.update k v al) \<subseteq> insert (k, v) (set al)"
  by (induction al) auto

lemma update_new_key: "k \<notin> fst ` set al \<Longrightarrow> AList.update k v al = al @ [(k, v)]"
  by (induction al) auto

lemma length_update: "length (AList.update k v al) = (if k \<in> fst ` set al then length al else Suc (length al))"
  by (induction al) auto

lemma put_record_get:
  "records_get (put_record m r st) m'
     = (if m' = m then AList.update (unique_fields m r) r (records_get st m) else records_get st m')"
  by (simp add: put_record_def Let_def records_get_def update_conv')

lemma put_record_history: "history (put_record m r st) = history st @ [Added m r]"
  by (simp add: put_record_def Let_def)

lemma put_record_keys:
  "distinct (map fst (records st)) \<Longrightarrow> distinct (map fst (records (put_record m r st)))"
  by (simp add: put_record_def Let_def distinct_update)

lemma last_added_snoc_Added:
  "last_added (h @ [Added m r]) m' k
     = (if m' = m \<and> unique_fields m r = k then Some r else last_added h m' k)"
  by (induction h) (auto split: option.splits event.splits)

lemma last_added_append_flushes:
  "\<forall>e \<in> set es. \<not> is_Added e \<Longrightarrow> last_added (h @ es) m k = last_added h m k"
proof (induction h)
  case Nil
  then show ?case
    by (induction es) (auto split: option.splits event.splits)
next
  case (Cons a h)
  then show ?case by (auto split: option.splits event.splits)
qed

lemma buffers_ok_put:
  assumes "buffers_ok st"
  shows "buffers_ok (put_record m r st)"
proof -
  have "distinct (map fst (records (put_record m r st)))"
    using assms by (simp add: buffers_ok_def put_record_keys)
  moreover have "distinct (map fst (records_get (put_record m r st) m'))" for m'
    using assms by (simp add: buffers_ok_def put_record_get distinct_update)
  moreover have "k = unique_fields m' x" if "(k, x) \<in> set (records_get (put_record m r st) m')" for m' k x
  proof (cases "m' = m")
    case True
    with that have "(k, x) \<in> insert (unique_fields m r, r) (set (records_get st m))"
      using set_update_subset by (fastforce simp: put_record_get)
    with assms True show ?thesis by (auto simp: buffers_ok_def)
  next
    case False
    with that assms show ?thesis by (auto simp: buffers_ok_def put_record_get)
  qed
  ultimately show ?thesis unfolding buffers_ok_def by blast
qed

lemma buffers_latest_put:
  assumes "buffers_ok st" and "buffers_latest st"
  shows "buffers_latest (put_record m r st)"
proof -
  have "last_added (history (put_record m r st)) m' k = Some x"
    if "(k, x) \<in> set (records_get (put_record m r st) m')" for m' k x
  proof (cases "m' = m")
    case True
    let ?al = "records_get st m"
    have d: "distinct (map fst (AList.update (unique_fields m r) r ?al))"
      using assms(1) by (simp add: buffers_ok_def distinct_update)
    from that True have i: "(k, x) \<in> set (AList.update (unique_fields m r) r ?al)"
      by (simp add: put_record_get)
    then have mo: "map_of (AList.update (unique_fields m r) r ?al) k = Some x"
      using d by simp
    show ?thesis
    proof (cases "k = unique_fields m r")
      case True
      with mo have "x = r" by (simp add: update_conv')
      with True \<open>m' = m\<close> show ?thesis by (simp add: put_record_history last_added_snoc_Added)
    next
      case False
      with mo have "map_of ?al k = Some x" by (simp add: update_conv')
      then have "(k, x) \<in> set ?al" by (rule map_of_SomeD)
      with assms(2) have "last_added (history st) m k = Some x" by (auto simp: buffers_latest_def)
      with False \<open>m' = m\<close> show ?thesis by (simp add: put_record_history last_added_snoc_Added)
    qed
  next
    case False
    with that have "(k, x) \<in> set (records_get st m')" by (simp add: put_record_get)
    with assms(2) have "last_added (history st) m' k = Some x" by (auto simp: buffers_latest_def)
    with False show ?thesis by (simp add: put_record_history last_added_snoc_Added)
  qed
  then show ?thesis unfolding buffers_latest_def by blast
qed

lemma flushes_latest_snoc_Added:
  "flushes_latest h \<Longrightarrow> flushes_latest (h @ [Added m r])"
  unfolding flushes_latest_def
  by (auto simp: nth_append less_Suc_eq)

lemma buffers_ok_touch: "buffers_ok (records_touch m st) = buffers_ok st"
  by (simp add: buffers_ok_def keys_touch)

lemma buffers_latest_touch: "buffers_latest (records_touch m st) = buffers_latest st"
  by (simp add: buffers_latest_def)


lemma map_unique_fields_buffer:
  "\<forall>(k, r) \<in> set b. k = unique_fields m r \<Longrightarrow> map (unique_fields m) (map snd b) = map fst b"
  by (induction b) auto

lemma flushes_latest_flush:
  assumes h: "flushes_latest h"
    and evs: "evs = map (\<lambda>(m, b). BulkCreated m (map snd b)) (filter (\<lambda>(m, b). b \<noteq> []) recs)"
    and recs: "\<forall>(m, b) \<in> set recs. distinct (map fst b)
                 \<and> (\<forall>(k, r) \<in> set b. k = unique_fields m r \<and> last_added h m k = Some r)"
  shows "flushes_latest (h @ evs)"
  unfolding flushes_latest_def
proof (intro allI impI, elim conjE)
  fix n m rs
  assume n: "n < length (h @ evs)" and e: "(h @ evs) ! n = BulkCreated m rs"
  show "distinct (map (unique_fields m) rs)
        \<and> (\<forall>r \<in> set rs. last_added (take n (h @ evs)) m (unique_fields m r) = Some r)"
  proof (cases "n < length h")
    case True
    with e have "h ! n = BulkCreated m rs" by (simp add: nth_append)
    with h True show ?thesis by (simp add: flushes_latest_def)
  next
    case False
    let ?j = "n - length h"
    from False n have j: "?j < length evs" by simp
    from False e have ej: "evs ! ?j = BulkCreated m rs" by (simp add: nth_append)
    with j have "BulkCreated m rs \<in> set evs" by (metis nth_mem)
    then obtain b where b: "(m, b) \<in> set recs" "rs = map snd b"
      by (auto simp: evs)
    from recs b(1) have d: "distinct (map fst b)"
      and kb: "\<forall>(k, r) \<in> set b. k = unique_fields m r"
      and lb: "\<forall>(k, r) \<in> set b. last_added h m k = Some r"
      by auto
    have na: "\<forall>e \<in> set (take ?j evs). \<not> is_Added e"
      by (auto simp: evs dest!: in_set_takeD)
    have t: "take n (h @ evs) = h @ take ?j evs" using False by simp
    have tn: "take n h = h" using False by simp
    have "last_added (take n (h @ evs)) m (unique_fields m r) = Some r" if "r \<in> set rs" for r
    proof -
      from that b(2) obtain k where "(k, r) \<in> set b" by auto
      with kb lb have "last_added h m (unique_fields m r) = Some r" by auto
      then show ?thesis unfolding t by (simp only: last_added_append_flushes [OF na])
    qed
    moreover have "distinct (map (unique_fields m) rs)"
      unfolding b(2) map_unique_fields_buffer [OF kb] by (rule d)
    ultimately show ?thesis by blast
  qed
qed

lemma batch_inv_init: "batch_inv (init_command t)"
  by (simp add: batch_inv_def buffers_ok_def buffers_latest_def flushes_latest_def
      init_command_def records_get_def)

lemma batch_inv_put_touch:
  assumes "batch_inv st"
  shows "batch_inv (records_touch m' (put_record m r st))"
  using assms
  by (simp add: batch_inv_def buffers_ok_touch buffers_latest_touch buffers_ok_put
      buffers_latest_put put_record_history flushes_latest_snoc_Added)

lemma batch_inv_save_all:
  assumes "batch_inv st"
  shows "batch_inv (fst (save_all_records (st, db)))"
proof -
  let ?st' = "fst (save_all_records (st, db))"
  from assms have d: "distinct (map fst (records (fst (st, db))))"
    by (simp add: batch_inv_def buffers_ok_def)
  note p = save_all_records_props [OF d]
  have ok: "buffers_ok ?st'"
    using d p(1) p(3) by (simp add: buffers_ok_def distinct_map)
  have la: "buffers_latest ?st'"
    using p(1) by (simp add: buffers_latest_def)
  have recs: "\<forall>(m, b) \<in> set (records st). distinct (map fst b)
                 \<and> (\<forall>(k, r) \<in> set b. k = unique_fields m r \<and> last_added (history st) m k = Some r)"
  proof (intro ballI, clarify)
    fix m b assume "(m, b) \<in> set (records st)"
    with d have "records_get st m = b" by (simp add: records_get_def)
    with assms show "distinct (map fst b)
       \<and> (\<forall>(k, r) \<in> set b. k = unique_fields m r \<and> last_added (history st) m k = Some r)"
      unfolding batch_inv_def buffers_ok_def buffers_latest_def by fastforce
  qed
  from assms have "flushes_latest (history st)" by (simp add: batch_inv_def)
  from flushes_latest_flush [OF this refl recs] have "flushes_latest (history ?st')"
    using p(2) by simp
  with ok la show ?thesis by (simp add: batch_inv_def)
qed

lemma add_record_cases:
  assumes "add_record m r (st, db) = Inr (st', db')"
  obtains (keep) "st' = records_touch Company (put_record m r st)" "db' = db"
      "length (records_get st' Company) < bulk_limit"
    | (flush) "(st', db') = save_all_records (records_touch Company (put_record m r st), db)"
      "bulk_limit \<le> length (records_get (put_record m r st) Company)"
  using assms
  by (auto simp: add_record_def Let_def split: if_splits)

lemma batch_inv_add_record:
  assumes "batch_inv st" and "add_record m r (st, db) = Inr (st', db')"
  shows "batch_inv st'"
  using assms(2)
proof (cases rule: add_record_cases)
  case keep
  with assms(1) show ?thesis by (simp add: batch_inv_put_touch)
next
  case flush
  then have "st' = fst (save_all_records (records_touch Company (put_record m r st), db))"
    by (metis fst_conv)
  with assms(1) show ?thesis by (simp add: batch_inv_save_all batch_inv_put_touch)
qed

lemma added_save_all:
  assumes "distinct (map fst (records st))"
  shows "filter is_Added (history (fst (save_all_records (st, db)))) = filter is_Added (history st)"
proof -
  from assms have d: "distinct (map fst (records (fst (st, db))))" by simp
  have "filter is_Added (map (\<lambda>(m, b). BulkCreated m (map snd b)) xs) = []" for xs :: "(model \<times> (key \<times> model_instance) list) list"
    by (induction xs) auto
  then show ?thesis by (simp add: save_all_records_props(2) [OF d])
qed

lemma added_add_record:
  assumes "batch_inv st" and "add_record m r (st, db) = Inr (st', db')"
  shows "filter is_Added (history st') = filter is_Added (history st) @ [Added m r]"
  using assms(2)
proof (cases rule: add_record_cases)
  case keep
  then show ?thesis by (simp add: put_record_history)
next
  case flush
  then have e: "st' = fst (save_all_records (records_touch Company (put_record m r st), db))"
    by (metis fst_conv)
  have "distinct (map fst (records (records_touch Company (put_record m r st))))"
    using batch_inv_put_touch [OF assms(1)] by (simp add: batch_inv_def buffers_ok_def)
  from added_save_all [OF this] show ?thesis by (simp add: e put_record_history)
qed

lemma company_bound_add_record:
  assumes "batch_inv st" and "add_record m r (st, db) = Inr (st', db')"
  shows "length (records_get st' Company) < bulk_limit
       \<and> (bulk_limit \<le> length (records_get (put_record m r st) Company) \<longrightarrow> records_get st' m' = [])"
  using assms(2)
proof (cases rule: add_record_cases)
  case keep
  then show ?thesis by simp
next
  case flush
  then have e: "st' = fst (save_all_records (records_touch Company (put_record m r st), db))"
    by (metis fst_conv)
  have d: "distinct (map fst (records (fst (records_touch Company (put_record m r st), db))))"
    using batch_inv_put_touch [OF assms(1)] by (simp add: batch_inv_def buffers_ok_def)
  have z: "records_get st' x = []" for x
    using save_all_records_props(1) [OF d] by (simp add: e)
  show ?thesis by (simp add: z bulk_limit_def)
qed

lemma add_records_inv:
  assumes "batch_inv st" and "add_records calls (st, db) = Inr (st', db')"
  shows "batch_inv st'
       \<and> filter is_Added (history st') = filter is_Added (history st) @ map Added_call calls
       \<and> (length (records_get st Company) < bulk_limit \<longrightarrow> length (records_get st' Company) < bulk_limit)"
  using assms
proof (induction calls arbitrary: st db)
  case Nil
  then show ?case by simp
next
  case (Cons c calls)
  obtain m r where c: "c = (m, r)" by (cases c)
  from Cons.prems(2) obtain st1 db1 where
    a: "add_record m r (st, db) = Inr (st1, db1)" and b: "add_records calls (st1, db1) = Inr (st', db')"
    by (auto simp: c split: sum.splits)
  note i1 = batch_inv_add_record [OF Cons.prems(1) a]
  note h1 = added_add_record [OF Cons.prems(1) a]
  note l1 = company_bound_add_record [OF Cons.prems(1) a, THEN conjunct1]
  from Cons.IH [OF i1 b] h1 l1 show ?case by (simp add: c)
qed


lemma add_records_append:
  "add_records (xs @ ys) s = (case add_records xs s of Inl e \<Rightarrow> Inl e | Inr s' \<Rightarrow> add_records ys s')"
  by (induction xs arbitrary: s) (auto split: sum.splits prod.splits)

text \<open>
  Claim C7. After any sequence of \<open>add_record\<close> calls on a new command, the calls are
  exactly the \<open>Added\<close> events of the history; every \<open>bulk_create\<close> made on the way was
  given records with pairwise different unique fields, each of them the last record added
  under its key before that flush; and the dictionaries still waiting hold each key once,
  with the last record added under it: a later record replaces an earlier one of the same
  key.
\<close>

theorem add_record_dedup:
  assumes "add_records calls (init_command t, db) = Inr (st, db')"
  shows "filter is_Added (history st) = map Added_call calls
       \<and> flushes_latest (history st)
       \<and> buffers_ok st \<and> buffers_latest st"
  using add_records_inv [OF batch_inv_init assms]
  by (simp add: batch_inv_def init_command_def)

lemma demo_calls_run:
  "add_records demo_calls (init_command 0, empty_db)
     = Inr ((init_command 0)\<lparr>
         records := [(Company, [([VStr ''00000001''], company_a2)]),
                     (PreviousName, [([VStr ''00000001'', VStr ''ACME OLD''], previous_name_a)])],
         history := [Added Company company_a, Added PreviousName previous_name_a, Added Company company_a2]\<rparr>,
       empty_db)"
  by (simp add: demo_calls_def add_record_def put_record_def records_touch_def records_get_def
      Let_def init_command_def bulk_limit_def unique_fields_def attr_def pk_def
      company_a_def company_a2_def previous_name_a_def)

theorem add_record_dedup_witness:
  "add_records demo_calls (init_command 0, empty_db)
     = Inr ((init_command 0)\<lparr>
         records := [(Company, [([VStr ''00000001''], company_a2)]),
                     (PreviousName, [([VStr ''00000001'', VStr ''ACME OLD''], previous_name_a)])],
         history := [Added Company company_a, Added PreviousName previous_name_a, Added Company company_a2]\<rparr>,
       empty_db)
   \<and> buffers_latest ((init_command 0)\<lparr>
         records := [(Company, [([VStr ''00000001''], company_a2)]),
                     (PreviousName, [([VStr ''00000001'', VStr ''ACME OLD''], previous_name_a)])],
         history := [Added Company company_a, Added PreviousName previous_name_a, Added Company company_a2]\<rparr>)
   \<and> last_added [Added Company company_a, Added PreviousName previous_name_a, Added Company company_a2]
         Company [VStr ''00000001''] = Some company_a2"
proof -
  note r = demo_calls_run
  from add_record_dedup [OF r] have "buffers_latest ((init_command 0)\<lparr>
         records := [(Company, [([VStr ''00000001''], company_a2)]),
                     (PreviousName, [([VStr ''00000001'', VStr ''ACME OLD''], previous_name_a)])],
         history := [Added Company company_a, Added PreviousName previous_name_a, Added Company company_a2]\<rparr>)"
    by blast
  moreover have "last_added [Added Company company_a, Added PreviousName previous_name_a, Added Company company_a2]
         Company [VStr ''00000001''] = Some company_a2"
    by (simp add: unique_fields_def pk_def attr_def company_a2_def)
  ultimately show ?thesis using r by blast
qed

text \<open>
  Claim C5, as amended. After any sequence of \<open>add_record\<close> calls on a new command the
  dictionary of \<open>Company\<close> holds fewer than \<open>bulk_limit\<close> records, and a call that brings
  it to \<open>bulk_limit\<close> leaves the dictionary of every model empty. The threshold is on
  \<open>Company\<close> alone.
\<close>

theorem company_buffer_bound:
  assumes "add_records calls (init_command t, db) = Inr (st, db')"
  shows "length (records_get st Company) < bulk_limit
       \<and> (\<forall>m r st2 db2.
             add_record m r (st, db') = Inr (st2, db2)
             \<and> bulk_limit \<le> length (records_get (put_record m r st) Company)
             \<longrightarrow> (\<forall>m'. records_get st2 m' = []))"
proof -
  note i = add_records_inv [OF batch_inv_init assms]
  have "length (records_get (init_command t) Company) < bulk_limit"
    by (simp add: init_command_def records_get_def bulk_limit_def)
  with i have a: "length (records_get st Company) < bulk_limit" by blast
  from i have inv: "batch_inv st" by blast
  have b: "records_get st2 m' = []"
    if "add_record m r (st, db') = Inr (st2, db2)"
       "bulk_limit \<le> length (records_get (put_record m r st) Company)" for m r st2 db2 m'
    using company_bound_add_record [OF inv that(1)] that(2) by blast
  from a b show ?thesis by blast
qed

theorem company_buffer_bound_witness:
  "add_records demo_calls (init_command 0, empty_db)
     = Inr ((init_command 0)\<lparr>
         records := [(Company, [([VStr ''00000001''], company_a2)]),
                     (PreviousName, [([VStr ''00000001'', VStr ''ACME OLD''], previous_name_a)])],
         history := [Added Company company_a, Added PreviousName previous_name_a, Added Company company_a2]\<rparr>,
       empty_db)
   \<and> length (records_get ((init_command 0)\<lparr>
         records := [(Company, [([VStr ''00000001''], company_a2)]),
                     (PreviousName, [([VStr ''00000001'', VStr ''ACME OLD''], previous_name_a)])],
         history := [Added Company company_a, Added PreviousName previous_name_a, Added Company company_a2]\<rparr>)
        Company) < bulk_limit"
  using company_buffer_bound [OF demo_calls_run] demo_calls_run by blast

lemma pn_key_inj: "unique_fields PreviousName (pn_record i) = unique_fields PreviousName (pn_record j) \<longleftrightarrow> i = j"
  by (auto simp: unique_fields_def attr_def pn_record_def)

lemma pn_calls_run:
  "\<exists>st. add_records (pn_calls n) (init_command t, db) = Inr (st, db)
        \<and> map fst (records_get st PreviousName) = map (\<lambda>i. unique_fields PreviousName (pn_record i)) [0..<n]
        \<and> records_get st Company = []"
proof (induction n)
  case 0
  then show ?case by (simp add: init_command_def records_get_def)
next
  case (Suc n)
  then obtain st where st: "add_records (pn_calls n) (init_command t, db) = Inr (st, db)"
    "map fst (records_get st PreviousName) = map (\<lambda>i. unique_fields PreviousName (pn_record i)) [0..<n]"
    "records_get st Company = []" by blast
  let ?k = "unique_fields PreviousName (pn_record n)"
  let ?st' = "records_touch Company (put_record PreviousName (pn_record n) st)"
  have new: "?k \<notin> fst ` set (records_get st PreviousName)"
  proof
    assume "?k \<in> fst ` set (records_get st PreviousName)"
    then have "?k \<in> set (map fst (records_get st PreviousName))" by simp
    then show False unfolding st(2) by (auto simp: pn_key_inj)
  qed
  have c: "records_get ?st' Company = []" by (simp add: put_record_get st(3))
  have a: "add_record PreviousName (pn_record n) (st, db) = Inr (?st', db)"
    using c by (simp add: add_record_def Let_def attr_def pn_record_def bulk_limit_def)
  have p: "map fst (records_get ?st' PreviousName)
        = map (\<lambda>i. unique_fields PreviousName (pn_record i)) [0..<Suc n]"
    by (simp add: put_record_get update_new_key [OF new] st(2))
  from st(1) a have "add_records (pn_calls (Suc n)) (init_command t, db) = Inr (?st', db)"
    by (simp add: add_records_append)
  with p c show ?case by blast
qed

text \<open>
  Claim C5 as stated fails: ten thousand calls for different previous names of one company
  never reach the threshold on \<open>Company\<close>, and the dictionary of \<open>PreviousName\<close> then
  holds \<open>bulk_limit\<close> records.
\<close>

theorem buffer_bound_counterexample:
  "\<not> isl (add_records (pn_calls 10000) (init_command 0, empty_db))
   \<and> \<not> (length (records_get (fst (projr (add_records (pn_calls 10000) (init_command 0, empty_db))))
                PreviousName) < bulk_limit)"
proof -
  from pn_calls_run [of 10000 0 empty_db] obtain st where
    st: "add_records (pn_calls 10000) (init_command 0, empty_db) = Inr (st, empty_db)"
      "map fst (records_get st PreviousName) = map (\<lambda>i. unique_fields PreviousName (pn_record i)) [0..<10000]"
    by blast
  from st(2) have "length (map fst (records_get st PreviousName)) = 10000" by simp
  then have "length (records_get st PreviousName) = 10000" by simp
  with st(1) show ?thesis by (simp add: bulk_limit_def)
qed

subsection \<open>fetch\_file\<close>

lemma files_stdout_write [simp]: "files (stdout_write x st) = files st"
  by (simp add: stdout_write_def)

lemma stdout_stdout_write [simp]: "stdout (stdout_write x st) = stdout st @ [x]"
  by (simp add: stdout_write_def)

lemma fetch_link_escapes:
  "escaping_error env sess link = Some e \<Longrightarrow> fetch_link env sess link st = Inl e"
  by (auto simp: escaping_error_def fetch_link_def Let_def
      split: if_splits sum.splits exc.splits option.splits)

lemma fetch_link_survives:
  assumes "escaping_error env sess link = None"
  shows "\<exists>st'. fetch_link env sess link st = Inr st'
           \<and> map_of (files st') = (\<lambda>l. if l = link \<and> fetched env sess link \<noteq> None
                                       then fetched env sess link else map_of (files st) l)
           \<and> set (stdout st) \<subseteq> set (stdout st')
           \<and> (\<forall>err. zip_regex_match link \<and> session_get env sess link = Inl (ChunkedEncodingError err)
                 \<longrightarrow> WriteERROR (''Error fetching: '' @ link) \<in> set (stdout st')
                     \<and> WriteERROR err \<in> set (stdout st'))"
  using assms
  by (auto simp: escaping_error_def fetch_link_def fetched_def Let_def update_conv'
      split: if_splits sum.splits exc.splits option.splits)

lemma fetch_links_survive:
  assumes "\<forall>l \<in> set links. escaping_error env sess l = None"
  shows "\<exists>st'. fetch_links env sess links st = Inr st'
           \<and> map_of (files st') = (\<lambda>l. if l \<in> set links \<and> fetched env sess l \<noteq> None
                                       then fetched env sess l else map_of (files st) l)
           \<and> set (stdout st) \<subseteq> set (stdout st')
           \<and> (\<forall>l err. l \<in> set links \<and> zip_regex_match l
                   \<and> session_get env sess l = Inl (ChunkedEncodingError err)
                 \<longrightarrow> WriteERROR (''Error fetching: '' @ l) \<in> set (stdout st')
                     \<and> WriteERROR err \<in> set (stdout st'))"
  using assms
proof (induction links arbitrary: st)
  case Nil
  then show ?case by simp
next
  case (Cons link links)
  from Cons.prems have e: "escaping_error env sess link = None"
    and rest: "\<forall>l \<in> set links. escaping_error env sess l = None" by auto
  from fetch_link_survives [OF e, of st] obtain st1 where
    s1: "fetch_link env sess link st = Inr st1"
      "map_of (files st1) = (\<lambda>l. if l = link \<and> fetched env sess link \<noteq> None
                                       then fetched env sess link else map_of (files st) l)"
      "set (stdout st) \<subseteq> set (stdout st1)"
      "\<forall>err. zip_regex_match link \<and> session_get env sess link = Inl (ChunkedEncodingError err)
                 \<longrightarrow> WriteERROR (''Error fetching: '' @ link) \<in> set (stdout st1)
                     \<and> WriteERROR err \<in> set (stdout st1)"
    by blast
  from Cons.IH [OF rest, of st1] obtain st2 where
    s2: "fetch_links env sess links st1 = Inr st2"
      "map_of (files st2) = (\<lambda>l. if l \<in> set links \<and> fetched env sess l \<noteq> None
                                       then fetched env sess l else map_of (files st1) l)"
      "set (stdout st1) \<subseteq> set (stdout st2)"
      "\<forall>l err. l \<in> set links \<and> zip_regex_match l
                   \<and> session_get env sess l = Inl (ChunkedEncodingError err)
                 \<longrightarrow> WriteERROR (''Error fetching: '' @ l) \<in> set (stdout st2)
                     \<and> WriteERROR err \<in> set (stdout st2)"
    by blast
  have a: "fetch_links env sess (link # links) st = Inr st2"
    by (simp add: s1(1) s2(1))
  have b: "map_of (files st2) = (\<lambda>l. if l \<in> set (link # links) \<and> fetched env sess l \<noteq> None
                                       then fetched env sess l else map_of (files st) l)"
    by (rule ext) (auto simp: s2(2) s1(2))
  have c: "set (stdout st) \<subseteq> set (stdout st2)" using s1(3) s2(3) by blast
  have d: "\<forall>l err. l \<in> set (link # links) \<and> zip_regex_match l
                   \<and> session_get env sess l = Inl (ChunkedEncodingError err)
                 \<longrightarrow> WriteERROR (''Error fetching: '' @ l) \<in> set (stdout st2)
                     \<and> WriteERROR err \<in> set (stdout st2)"
    using s1(4) s2(3) s2(4) by auto
  from a b c d show ?case by blast
qed

lemma fetch_links_escape:
  assumes "\<forall>l \<in> set pre. escaping_error env sess l = None"
    and "escaping_error env sess link = Some e"
  shows "fetch_links env sess (pre @ link # post) st = Inl e"
  using assms(1)
proof (induction pre arbitrary: st)
  case Nil
  then show ?case by (simp add: fetch_link_escapes [OF assms(2)])
next
  case (Cons a pre)
  then have "escaping_error env sess a = None" by simp
  from fetch_link_survives [OF this, of st] obtain st1 where "fetch_link env sess a st = Inr st1"
    by blast
  with Cons show ?case by simp
qed

text \<open>
  Claim C3, as amended. With the index page fetched, a \<open>ChunkedEncodingError\<close> raised
  while fetching a ZIP link is caught and written to the output for that link alone, and
  \<open>fetch_file\<close> goes on: when no other exception occurs it returns with exactly the
  responses of the links whose fetch succeeded. Any other exception of \<open>session.get\<close>, and
  the \<open>HTTPError\<close> of \<open>raise_for_status\<close>, is not caught: the first such link ends
  \<open>fetch_file\<close> with that exception.
\<close>

theorem fetch_file_chunked_only:
  assumes "session st = Some sess"
    and "session_get env sess start_url = Inr page"
    and "raise_for_status page = None"
  shows "((\<forall>l \<in> set (absolute_links page). escaping_error env sess l = None) \<longrightarrow>
           (\<exists>st'. fetch_file env st = Inr st'
              \<and> map_of (files st') = (\<lambda>l. if l \<in> set (absolute_links page) then fetched env sess l else None)
              \<and> (\<forall>l err. l \<in> set (absolute_links page) \<and> zip_regex_match l
                     \<and> session_get env sess l = Inl (ChunkedEncodingError err)
                   \<longrightarrow> WriteERROR (''Error fetching: '' @ l) \<in> set (stdout st')
                       \<and> WriteERROR err \<in> set (stdout st'))))
       \<and> (\<forall>pre link post e. absolute_links page = pre @ link # post
             \<and> (\<forall>l \<in> set pre. escaping_error env sess l = None)
             \<and> escaping_error env sess link = Some e
            \<longrightarrow> fetch_file env st = Inl e)"
proof -
  have ff: "fetch_file env st = fetch_links env sess (absolute_links page) (st\<lparr>files := []\<rparr>)"
    using assms by (simp add: fetch_file_def Let_def)
  have a: "\<exists>st'. fetch_file env st = Inr st'
              \<and> map_of (files st') = (\<lambda>l. if l \<in> set (absolute_links page) then fetched env sess l else None)
              \<and> (\<forall>l err. l \<in> set (absolute_links page) \<and> zip_regex_match l
                     \<and> session_get env sess l = Inl (ChunkedEncodingError err)
                   \<longrightarrow> WriteERROR (''Error fetching: '' @ l) \<in> set (stdout st')
                       \<and> WriteERROR err \<in> set (stdout st'))"
    if ok: "\<forall>l \<in> set (absolute_links page). escaping_error env sess l = None"
  proof -
    from fetch_links_survive [OF ok, of "st\<lparr>files := []\<rparr>"] obtain st' where
      s: "fetch_links env sess (absolute_links page) (st\<lparr>files := []\<rparr>) = Inr st'"
        "map_of (files st') = (\<lambda>l. if l \<in> set (absolute_links page) \<and> fetched env sess l \<noteq> None
                                       then fetched env sess l else map_of (files (st\<lparr>files := []\<rparr>)) l)"
        "\<forall>l err. l \<in> set (absolute_links page) \<and> zip_regex_match l
                   \<and> session_get env sess l = Inl (ChunkedEncodingError err)
                 \<longrightarrow> WriteERROR (''Error fetching: '' @ l) \<in> set (stdout st')
                     \<and> WriteERROR err \<in> set (stdout st')"
      by blast
    have "map_of (files st') = (\<lambda>l. if l \<in> set (absolute_links page) then fetched env sess l else None)"
      by (rule ext) (simp add: s(2))
    with s(1) s(3) ff show ?thesis by simp
  qed
  have b: "fetch_file env st = Inl e"
    if "absolute_links page = pre @ link # post"
       "\<forall>l \<in> set pre. escaping_error env sess l = None"
       "escaping_error env sess link = Some e" for pre link post e
    using fetch_links_escape [OF that(2) that(3)] that(1) ff by simp
  from a b show ?thesis by blast
qed


lemma demo_links_match:
  "zip_regex_match zip_one" "zip_regex_match zip_two"
  "\<not> zip_regex_match ''http://download.companieshouse.gov.uk/en_pscdata.html''"
  by (simp_all add: zip_regex_match_def zip_one_def zip_two_def)

lemma demo_urls_differ:
  "zip_one \<noteq> start_url" "zip_two \<noteq> start_url" "zip_two \<noteq> zip_one"
  by (simp_all add: zip_one_def zip_two_def start_url_def)

theorem fetch_file_chunked_only_witness:
  "session (set_session False (init_command 0)) = Some HTMLSession
   \<and> session_get (env_with get_chunked) HTMLSession start_url = Inr index_page
   \<and> raise_for_status index_page = None
   \<and> absolute_links index_page
       = [zip_one, ''http://download.companieshouse.gov.uk/en_pscdata.html'', zip_two]
   \<and> escaping_error (env_with get_chunked) HTMLSession zip_one = None
   \<and> escaping_error (env_with get_chunked) HTMLSession
         ''http://download.companieshouse.gov.uk/en_pscdata.html'' = None
   \<and> escaping_error (env_with get_chunked) HTMLSession zip_two = None
   \<and> (\<exists>st'. fetch_file (env_with get_chunked) (set_session False (init_command 0)) = Inr st'
          \<and> map_of (files st') zip_one = None
          \<and> map_of (files st') zip_two = Some empty_zip
          \<and> WriteERROR (''Error fetching: '' @ zip_one) \<in> set (stdout st')
          \<and> WriteERROR ''Connection broken'' \<in> set (stdout st'))"
proof -
  have h1: "session (set_session False (init_command 0)) = Some HTMLSession"
    by (simp add: set_session_def init_command_def)
  have h2: "session_get (env_with get_chunked) HTMLSession start_url = Inr index_page"
    by (simp add: env_with_def get_chunked_def)
  have h3: "raise_for_status index_page = None"
    by (simp add: raise_for_status_def index_page_def)
  have g1: "session_get (env_with get_chunked) HTMLSession zip_one = Inl (ChunkedEncodingError ''Connection broken'')"
    by (simp add: env_with_def get_chunked_def demo_urls_differ)
  have g2: "session_get (env_with get_chunked) HTMLSession zip_two = Inr empty_zip"
    by (simp add: env_with_def get_chunked_def demo_urls_differ)
  have r2: "raise_for_status empty_zip = None"
    by (simp add: raise_for_status_def empty_zip_def)
  have h4: "\<forall>l \<in> set (absolute_links index_page). escaping_error (env_with get_chunked) HTMLSession l = None"
    by (simp add: index_page_def escaping_error_def demo_links_match g1 g2 r2)
  have f1: "fetched (env_with get_chunked) HTMLSession zip_one = None"
    by (simp add: fetched_def g1)
  have f2: "fetched (env_with get_chunked) HTMLSession zip_two = Some empty_zip"
    by (simp add: fetched_def g2 demo_links_match)
  have m: "zip_one \<in> set (absolute_links index_page)" "zip_two \<in> set (absolute_links index_page)"
    by (simp_all add: index_page_def)
  from fetch_file_chunked_only [OF h1 h2 h3] h4 obtain st' where
    s: "fetch_file (env_with get_chunked) (set_session False (init_command 0)) = Inr st'"
      "map_of (files st') = (\<lambda>l. if l \<in> set (absolute_links index_page)
                                 then fetched (env_with get_chunked) HTMLSession l else None)"
      "\<forall>l err. l \<in> set (absolute_links index_page) \<and> zip_regex_match l
                     \<and> session_get (env_with get_chunked) HTMLSession l = Inl (ChunkedEncodingError err)
                   \<longrightarrow> WriteERROR (''Error fetching: '' @ l) \<in> set (stdout st')
                       \<and> WriteERROR err \<in> set (stdout st')"
    by blast
  from s(2) m f1 f2 have "map_of (files st') zip_one = None" "map_of (files st') zip_two = Some empty_zip"
    by simp_all
  moreover from s(3) m(1) demo_links_match(1) g1
  have "WriteERROR (''Error fetching: '' @ zip_one) \<in> set (stdout st')
        \<and> WriteERROR ''Connection broken'' \<in> set (stdout st')" by blast
  moreover have "absolute_links index_page
       = [zip_one, ''http://download.companieshouse.gov.uk/en_pscdata.html'', zip_two]"
    by (simp add: index_page_def)
  moreover from h4 have "escaping_error (env_with get_chunked) HTMLSession zip_one = None"
    "escaping_error (env_with get_chunked) HTMLSession
         ''http://download.companieshouse.gov.uk/en_pscdata.html'' = None"
    "escaping_error (env_with get_chunked) HTMLSession zip_two = None"
    by (simp_all add: index_page_def)
  ultimately show ?thesis using h1 h2 h3 s(1) by blast
qed

text \<open>
  Claim C3 as stated fails: a ZIP link answered with status 404, or one that cannot
  connect, ends \<open>fetch_file\<close> with the exception.
\<close>

theorem fetch_file_error_counterexample:
  "fetch_file (env_with get_404) (set_session False (init_command 0)) = Inl (HTTPError 404)
   \<and> fetch_file (env_with get_refused) (set_session False (init_command 0))
       = Inl (ConnectionError ''Connection refused'')"
  by (simp add: fetch_file_def set_session_def init_command_def env_with_def get_404_def
      get_refused_def raise_for_status_def index_page_def fetch_link_def demo_links_match
      demo_urls_differ not_found_def Let_def)

subsection \<open>parse\_row\<close>

lemma sic_key_not_previous: "startswith k ''SICCode_'' \<Longrightarrow> \<not> startswith k ''PreviousName_''"
  by (cases k) (auto simp: startswith_def)

lemma sic_key_not_date: "startswith k ''SICCode_'' \<Longrightarrow> k \<notin> set date_fields"
  by (auto simp: startswith_def date_fields_def)

lemma parse_column_sic_skipped:
  assumes "startswith k ''SICCode_''" and "sic_skipped v"
  shows "parse_column (k, v) (acc, st, db) = (Inr acc, st, db)"
  using assms sic_key_not_previous [OF assms(1)]
  by (cases v) (simp_all add: parse_column_def)

lemma split_once_length: "length (split_once sep s) = 2 \<longleftrightarrow> find_sub sep s \<noteq> None"
  by (auto simp: split_once_def split: option.splits)

lemma parse_column_sic_malformed:
  assumes "startswith k ''SICCode_''" and "sic_malformed v"
  shows "\<exists>e. fst (parse_column (k, v) (acc, st, db)) = Inl e"
proof -
  from assms(2) obtain s where v: "v = VStr s" "replace ''None Supplied'' [] s \<noteq> []"
      "find_sub '' - '' s = None"
    by (cases v) auto
  from v(2) have "s \<noteq> []" by auto
  with v sic_key_not_previous [OF assms(1)] assms(1) show ?thesis
    by (simp add: parse_column_def split_once_def Let_def)
qed

lemma parse_columns_raises:
  assumes "c \<in> set cols" and "\<And>acc st db. \<exists>e. fst (parse_column c (acc, st, db)) = Inl e"
  shows "\<exists>e. fst (parse_columns cols (acc, st, db)) = Inl e"
  using assms(1)
proof (induction cols arbitrary: acc st db)
  case Nil
  then show ?case by simp
next
  case (Cons a cols)
  show ?case
  proof (cases "parse_column a (acc, st, db)")
    case (fields r st' db')
    show ?thesis
    proof (cases r)
      case (Inl e)
      with fields show ?thesis by simp
    next
      case (Inr acc')
      with fields assms(2) [of acc st db] have "a \<noteq> c" by auto
      with Cons.prems have "c \<in> set cols" by simp
      from Cons.IH [OF this] fields Inr show ?thesis by simp
    qed
  qed
qed

lemma parse_row_raises:
  assumes "\<exists>e. fst (parse_columns (clean_categories env (clean_fields (normalise_keys row0)))
             (\<lparr>previous_names = [], sic_codes = [], fields_acc = []\<rparr>, st, db)) = Inl e"
  shows "fst (parse_row env row0 (st, db)) \<noteq> None"
  using assms
  by (auto simp: parse_row_def Let_def split: prod.splits sum.splits)

text \<open>
  Claim C10, as amended. For a column whose name starts with \<open>SICCode_\<close>, the value that
  reaches the loop of \<open>parse_row\<close> is the raw value stripped of surrounding white space and
  of NUL characters (\<open>None\<close> for an empty or missing one). A cleaned value that is \<open>None\<close>,
  or of which nothing is left once every \<open>None Supplied\<close> is removed, is skipped: the loop
  body changes neither the codes collected, nor the command, nor the database. A cleaned value
  of which something is left and that has no \<open> - \<close> makes \<open>parse_row\<close> raise. So
  \<open>parse_row\<close> returns only for rows without such a value.
\<close>

theorem parse_row_sic_separator:
  assumes "startswith k ''SICCode_''"
  shows "clean_field k raw
           = (case raw of None \<Rightarrow> VNone
              | Some s \<Rightarrow> if s = [] then VNone else VStr (replace [CHR 0x00] [] (strip s)))
       \<and> (sic_skipped v \<longrightarrow> parse_column (k, v) (acc, st, db) = (Inr acc, st, db))
       \<and> ((k, v) \<in> set (clean_categories env (clean_fields (normalise_keys row0))) \<and> sic_malformed v
            \<longrightarrow> fst (parse_row env row0 (st, db)) \<noteq> None)"
proof -
  have a: "clean_field k raw
           = (case raw of None \<Rightarrow> VNone
              | Some s \<Rightarrow> if s = [] then VNone else VStr (replace [CHR 0x00] [] (strip s)))"
    using sic_key_not_date [OF assms] by (simp add: clean_field_def split: option.splits)
  have b: "parse_column (k, v) (acc, st, db) = (Inr acc, st, db)" if "sic_skipped v"
    using parse_column_sic_skipped [OF assms that] .
  have c: "fst (parse_row env row0 (st, db)) \<noteq> None"
    if "(k, v) \<in> set (clean_categories env (clean_fields (normalise_keys row0)))" "sic_malformed v"
    by (rule parse_row_raises, rule parse_columns_raises [OF that(1)])
       (rule parse_column_sic_malformed [OF assms that(2)])
  from a b c show ?thesis by blast
qed

lemma clean_row_no_separator:
  "clean_categories (env_with g) (clean_fields (normalise_keys row_no_separator))
     = [(''CompanyName'', VStr ''ACME LTD''), (''CompanyNumber'', VStr ''00000001''),
        (''SICCode_SicText_1'', VStr ''62020 Information technology''),
        (''CompanyCategory'', VNone), (''CompanyStatus'', VNone), (''Accounts_AccountCategory'', VNone)]"
  by (simp add: row_no_separator_def normalise_keys_def clean_fields_def clean_field_def
      clean_categories_def clean_category_def dict_get_def strip_def is_space_def date_fields_def
      env_with_def)

theorem parse_row_sic_separator_witness:
  "startswith ''SICCode_SicText_1'' ''SICCode_''
   \<and> (''SICCode_SicText_1'', VStr ''62020 Information technology'')
        \<in> set (clean_categories (env_with get_chunked) (clean_fields (normalise_keys row_no_separator)))
   \<and> sic_malformed (VStr ''62020 Information technology'')
   \<and> fst (parse_row (env_with get_chunked) row_no_separator (init_command 0, empty_db)) \<noteq> None
   \<and> sic_skipped (VStr ''None Supplied'')
   \<and> parse_column (''SICCode_SicText_1'', VStr ''None Supplied'')
         (\<lparr>previous_names = [], sic_codes = [], fields_acc = []\<rparr>, init_command 0, empty_db)
       = (Inr \<lparr>previous_names = [], sic_codes = [], fields_acc = []\<rparr>, init_command 0, empty_db)"
proof -
  have k: "startswith ''SICCode_SicText_1'' ''SICCode_''" by (simp add: startswith_def)
  have m: "(''SICCode_SicText_1'', VStr ''62020 Information technology'')
        \<in> set (clean_categories (env_with get_chunked) (clean_fields (normalise_keys row_no_separator)))"
    by (simp add: clean_row_no_separator)
  have b: "sic_malformed (VStr ''62020 Information technology'')" by simp
  have s: "sic_skipped (VStr ''None Supplied'')" by simp
  note t1 = parse_row_sic_separator [OF k, of None "VStr ''62020 Information technology''"
      "\<lparr>previous_names = [], sic_codes = [], fields_acc = []\<rparr>" "init_command 0" empty_db
      "env_with get_chunked" row_no_separator]
  note t2 = parse_row_sic_separator [OF k, of None "VStr ''None Supplied''"
      "\<lparr>previous_names = [], sic_codes = [], fields_acc = []\<rparr>" "init_command 0" empty_db
      "env_with get_chunked" row_no_separator]
  from t1 m b have c1: "fst (parse_row (env_with get_chunked) row_no_separator (init_command 0, empty_db)) \<noteq> None"
    by blast
  from t2 s have c2: "parse_column (''SICCode_SicText_1'', VStr ''None Supplied'')
         (\<lparr>previous_names = [], sic_codes = [], fields_acc = []\<rparr>, init_command 0, empty_db)
       = (Inr \<lparr>previous_names = [], sic_codes = [], fields_acc = []\<rparr>, init_command 0, empty_db)"
    by blast
  from k m b s c1 c2 show ?thesis by blast
qed

lemma clean_row_blank_sic:
  "clean_categories (env_with g) (clean_fields (normalise_keys row_blank_sic))
     = [(''CompanyName'', VStr ''ACME LTD''), (''CompanyNumber'', VStr ''00000001''),
        (''SICCode_SicText_1'', VStr []),
        (''CompanyCategory'', VNone), (''CompanyStatus'', VNone), (''Accounts_AccountCategory'', VNone)]"
  by (simp add: row_blank_sic_def normalise_keys_def clean_fields_def clean_field_def
      clean_categories_def clean_category_def dict_get_def strip_def is_space_def date_fields_def
      env_with_def)

lemma clean_row_repeated_none:
  "clean_categories (env_with g) (clean_fields (normalise_keys row_repeated_none))
     = [(''CompanyName'', VStr ''ACME LTD''), (''CompanyNumber'', VStr ''00000001''),
        (''SICCode_SicText_1'', VStr ''None SuppliedNone Supplied''),
        (''CompanyCategory'', VNone), (''CompanyStatus'', VNone), (''Accounts_AccountCategory'', VNone)]"
  by (simp add: row_repeated_none_def normalise_keys_def clean_fields_def clean_field_def
      clean_categories_def clean_category_def dict_get_def strip_def is_space_def date_fields_def
      env_with_def)

lemmas parse_row_eval = parse_row_def parse_column_def startswith_def make_company_def
  add_record_def put_record_def records_touch_def records_get_def unique_fields_def pk_def attr_def
  and_then_def bulk_limit_def init_command_def env_with_def Let_def

text \<open>
  Claim C10 as stated fails: a value of three spaces, and the value
  \<open>None SuppliedNone Supplied\<close>, are not empty, differ from \<open>None Supplied\<close> and hold no
  \<open> - \<close>, yet \<open>parse_row\<close> returns without raising.
\<close>

theorem parse_row_sic_counterexample:
  "map_of row_blank_sic ''SICCode.SicText_1'' = Some (Some ''   '')
   \<and> ''   '' \<noteq> [] \<and> ''   '' \<noteq> ''None Supplied'' \<and> find_sub '' - '' ''   '' = None
   \<and> fst (parse_row (env_with get_chunked) row_blank_sic (init_command 0, empty_db)) = None
   \<and> map_of row_repeated_none ''SICCode.SicText_1'' = Some (Some ''None SuppliedNone Supplied'')
   \<and> ''None SuppliedNone Supplied'' \<noteq> ''None Supplied''
   \<and> find_sub '' - '' ''None SuppliedNone Supplied'' = None
   \<and> fst (parse_row (env_with get_chunked) row_repeated_none (init_command 0, empty_db)) = None"
proof -
  have a: "fst (parse_row (env_with get_chunked) row_blank_sic (init_command 0, empty_db)) = None"
    unfolding parse_row_def Let_def clean_row_blank_sic
    by (simp add: parse_row_eval)
  have b: "fst (parse_row (env_with get_chunked) row_repeated_none (init_command 0, empty_db)) = None"
    unfolding parse_row_def Let_def clean_row_repeated_none
    by (simp add: parse_row_eval)
  show ?thesis using a b by (simp add: row_blank_sic_def row_repeated_none_def)
qed


lemma clean_field_bad_date:
  "f \<in> set date_fields \<Longrightarrow> strptime (strip s) = None \<Longrightarrow> clean_field f (Some s) = VNone"
  by (simp add: clean_field_def)

lemma strptime_bad: "strptime ''31/02/2001'' = None"
  by (simp add: strptime_def is_digit_def digit_val_def days_in_month_def is_leap_def)

lemma clean_row_bad_condate:
  "clean_categories (env_with g) (clean_fields (normalise_keys row_bad_condate))
     = [(''CompanyName'', VStr ''ACME LTD''), (''CompanyNumber'', VStr ''00000001''),
        (''PreviousName_1_CONDATE'', VStr ''31/02/2001''),
        (''PreviousName_1_CompanyName'', VStr ''ACME OLD''),
        (''CompanyCategory'', VNone), (''CompanyStatus'', VNone), (''Accounts_AccountCategory'', VNone)]"
  by (simp add: row_bad_condate_def normalise_keys_def clean_fields_def clean_field_def
      clean_categories_def clean_category_def dict_get_def strip_def is_space_def date_fields_def
      env_with_def)

lemma clean_row_bad_dissolution:
  "clean_categories (env_with g) (clean_fields (normalise_keys row_bad_dissolution))
     = [(''CompanyName'', VStr ''ACME LTD''), (''CompanyNumber'', VStr ''00000001''),
        (''DissolutionDate'', VNone),
        (''CompanyCategory'', VNone), (''CompanyStatus'', VNone), (''Accounts_AccountCategory'', VNone)]"
  by (simp add: row_bad_dissolution_def normalise_keys_def clean_fields_def clean_field_def
      clean_categories_def clean_category_def dict_get_def strip_def is_space_def date_fields_def
      env_with_def strptime_bad)

text \<open>
  Claim C2 fails on the code. A date that does not parse in one of the \<open>date_fields\<close>
  becomes \<open>None\<close> (\<open>clean_field_bad_date\<close>), and the row goes through; the same date in
  \<open>PreviousName_1.CONDATE\<close> reaches the \<open>strptime\<close> of \<open>parse_row\<close>, which no \<open>try\<close>
  surrounds, and \<open>parse_row\<close> raises \<open>ValueError\<close>.
\<close>

theorem parse_row_bad_condate_raises:
  "fst (parse_row (env_with get_chunked) row_bad_condate (init_command 0, empty_db))
     = Some (ValueError ''time data does not match format'')
   \<and> fst (parse_row (env_with get_chunked) row_bad_dissolution (init_command 0, empty_db)) = None"
proof -
  have a: "fst (parse_row (env_with get_chunked) row_bad_condate (init_command 0, empty_db))
     = Some (ValueError ''time data does not match format'')"
    unfolding parse_row_def Let_def clean_row_bad_condate
    by (simp add: parse_column_def startswith_def strptime_bad)
  have b: "fst (parse_row (env_with get_chunked) row_bad_dissolution (init_command 0, empty_db)) = None"
    unfolding parse_row_def Let_def clean_row_bad_dissolution
    by (simp add: parse_row_eval)
  from a b show ?thesis by blast
qed

subsection \<open>handle: flags, upserts and deletion\<close>






















lemma all_flushed_frame:
  "records st' = records st \<Longrightarrow> all_flushed st' = all_flushed st"
  by (simp add: all_flushed_def records_get_def)






























text \<open>
  Claim C6. Everything \<open>handle\<close> writes is written inside \<open>transaction.atomic()\<close>: when
  \<open>handle\<close> raises, the database is the one it started with, and the exception is the one
  raised inside the block.
\<close>

theorem handle_atomic:
  "fst (handle env opts (st, db)) \<noteq> None \<longrightarrow>
     snd (snd (handle env opts (st, db))) = db
     \<and> fst (handle env opts (st, db)) = fst (handle_body env opts (st\<lparr>debug := opt_debug opts\<rparr>, db))"
  by (auto simp: handle_def atomic_def split: prod.splits option.splits)

subsection \<open>handle on concrete inputs\<close>

lemma clean_row_acme:
  "clean_categories (env_with g) (clean_fields (normalise_keys row_acme))
     = [(''CompanyName'', VStr ''ACME LTD''), (''CompanyNumber'', VStr ''00000001''),
        (''PreviousName_1_CONDATE'', VStr ''03/02/2001''),
        (''PreviousName_1_CompanyName'', VStr ''ACME OLD''),
        (''SICCode_SicText_1'', VStr ''62020 - Information technology consultancy activities''),
        (''CompanyCategory'', VNone), (''CompanyStatus'', VNone), (''Accounts_AccountCategory'', VNone)]"
  by (simp add: row_acme_def normalise_keys_def clean_fields_def clean_field_def
      clean_categories_def clean_category_def dict_get_def strip_def is_space_def date_fields_def
      env_with_def)

lemma strptime_good: "strptime ''03/02/2001'' = Some (2001, 2, 3)"
  by (simp add: strptime_def is_digit_def digit_val_def days_in_month_def is_leap_def)

lemma stage_fetch:
  assumes "g HTMLSession start_url = Inr index_one" and "g HTMLSession zip_one = Inr z"
    and "raise_for_status z = None"
  shows "fetch_file (env_with g) (set_session False ((init_command 0)\<lparr>debug := False\<rparr>))
     = Inr \<lparr>records = [], object_count = \<lambda>m. 0, now = 0, sic_code_cache = [],
            debug = False, session = Some HTMLSession, files = [(zip_one, z)],
            stdout = [Write (''Fetching: '' @ zip_one),
                      Write (if from_cache z then ''From cache'' else ''From network'')],
            history = []\<rparr>"
  using assms
  by (simp add: fetch_file_def fetch_link_def set_session_def init_command_def env_with_def
      index_one_def raise_for_status_def demo_links_match
      stdout_write_def Let_def)

lemma stage_row:
  assumes "records st = []" and "sic_code_cache st = []"
  shows "parse_row (env_with g) row_acme (st, db)
     = (None,
        st\<lparr>sic_code_cache := [(''62020'', ''Information technology consultancy activities'')],
           history := history st @ [Added Company (acme_company (now st)), Added PreviousName acme_name,
                                    Added CompanySICCode acme_sic],
           records := [(Company, [([VStr ''00000001''], acme_company (now st))]),
                       (PreviousName, [([VStr ''00000001'', VStr ''ACME OLD''], acme_name)]),
                       (CompanySICCode, [([VStr ''00000001'', VStr ''62020''], acme_sic)])]\<rparr>,
        db\<lparr>sic_table := AList.update ''62020'' ''Information technology consultancy activities''
                              (sic_table db)\<rparr>)"
  using assms
  unfolding parse_row_def Let_def clean_row_acme
  by (simp add: parse_column_def startswith_def strptime_good split_once_def strip_def is_space_def
      make_company_def env_with_def add_record_def put_record_def records_touch_def records_get_def
      unique_fields_def pk_def attr_def and_then_def bulk_limit_def add_previous_name_def
      add_sic_code_def dict_item_def Let_def acme_company_def acme_name_def acme_sic_def)

lemma stage_bad_row:
  "parse_row (env_with g) row_bad_condate (st, db)
     = (Some (ValueError ''time data does not match format''), st, db)"
  unfolding parse_row_def Let_def clean_row_bad_condate
  by (simp add: parse_column_def startswith_def strptime_bad)





lemma failed_run_result:
  "\<exists>st' db'. failed_body = (Some (ValueError ''time data does not match format''), st', db')
     \<and> failed_run = (Some (ValueError ''time data does not match format''), st', db_stale)
     \<and> sic_table db' = [(''62020'', ''Information technology consultancy activities'')]
     \<and> tables db' = tables (unflag_all db_stale)"
proof -
  let ?E = "env_with get_acme_bad"
  let ?e = "ValueError ''time data does not match format''"
  define db1 where "db1 = unflag_all db_stale"
  define stF where "stF = \<lparr>records = [], object_count = \<lambda>m. 0, now = 0, sic_code_cache = [],
            debug = False, session = Some HTMLSession, files = [(zip_one, zip_acme_bad)],
            stdout = [Write (''Fetching: '' @ zip_one),
                      Write (if from_cache zip_acme_bad then ''From cache'' else ''From network'')],
            history = []\<rparr>"
  have f: "fetch_file ?E (set_session False ((init_command 0)\<lparr>debug := False\<rparr>)) = Inr stF"
    unfolding stF_def
    by (rule stage_fetch) (simp_all add: get_acme_bad_def demo_urls_differ raise_for_status_def zip_acme_bad_def)
  define stB where "stB = stdout_write (Write (''Opening: '' @ ''BasicCompanyData-2023-05-01-part1_2.csv''))
      (stdout_write (Write (''Opening: '' @ zip_one)) stF)"
  have b: "records stB = []" "sic_code_cache stB = []" "debug stB = False"
    by (simp_all add: stB_def stF_def stdout_write_def)
  define stC where "stC = stB\<lparr>sic_code_cache := [(''62020'', ''Information technology consultancy activities'')],
           history := history stB @ [Added Company (acme_company (now stB)), Added PreviousName acme_name,
                                    Added CompanySICCode acme_sic],
           records := [(Company, [([VStr ''00000001''], acme_company (now stB))]),
                       (PreviousName, [([VStr ''00000001'', VStr ''ACME OLD''], acme_name)]),
                       (CompanySICCode, [([VStr ''00000001'', VStr ''62020''], acme_sic)])]\<rparr>"
  define db2 where "db2 = db1\<lparr>sic_table := AList.update ''62020'' ''Information technology consultancy activities''
                              (sic_table db1)\<rparr>"
  have r: "parse_row ?E row_acme (stB, db1) = (None, stC, db2)"
    unfolding stC_def db2_def by (rule stage_row [OF b(1,2)])
  have r2: "parse_row ?E row_bad_condate (stC, db2) = (Some ?e, stC, db2)"
    by (rule stage_bad_row)
  have pf: "parse_file ?E (zip_one, zip_acme_bad) (stF, db1) = (Some ?e, stC, db2)"
    using r r2 b(3)
    by (simp add: parse_file_def parse_csv_def zip_acme_bad_def and_then_def Let_def stB_def)
  have imp: "import_files ?E opts_plain ((init_command 0)\<lparr>debug := False\<rparr>, db_stale) = (Some ?e, stC, db2)"
    using f pf by (simp add: import_files_def opts_plain_def Let_def db1_def stF_def and_then_def)
  have body: "failed_body = (Some ?e, stC, db2)"
    using imp by (simp add: failed_body_def handle_body_def and_then_def)
  have run: "failed_run = (Some ?e, stC, db_stale)"
    using imp
    by (simp add: failed_run_def handle_def atomic_def handle_body_def and_then_def opts_plain_def)
  have s: "sic_table db2 = [(''62020'', ''Information technology consultancy activities'')]"
    by (simp add: db2_def db1_def unflag_all_def unflag_def db_stale_def)
  have t: "tables db2 = tables (unflag_all db_stale)" by (simp add: db2_def db1_def)
  from body run s t show ?thesis by blast
qed

theorem handle_atomic_witness:
  "fst failed_run = Some (ValueError ''time data does not match format'')
   \<and> snd (snd failed_run) = db_stale
   \<and> fst failed_body = fst failed_run
   \<and> sic_table (snd (snd failed_body)) = [(''62020'', ''Information technology consultancy activities'')]
   \<and> sic_table db_stale = []"
proof -
  from failed_run_result obtain st' db' where
    b: "failed_body = (Some (ValueError ''time data does not match format''), st', db')"
    and r: "failed_run = (Some (ValueError ''time data does not match format''), st', db_stale)"
    and s: "sic_table db' = [(''62020'', ''Information technology consultancy activities'')]"
    by blast
  have n: "fst (handle (env_with get_acme_bad) opts_plain (init_command 0, db_stale)) \<noteq> None"
    unfolding failed_run_def [symmetric] r by simp
  from handle_atomic [of "env_with get_acme_bad" opts_plain "init_command 0" db_stale] n
  have c1: "snd (snd failed_run) = db_stale" unfolding failed_run_def by blast
  have c2: "fst failed_run = Some (ValueError ''time data does not match format'')"
    unfolding r by simp
  have c3: "fst failed_body = fst failed_run" unfolding r b by simp
  have c4: "sic_table (snd (snd failed_body)) = [(''62020'', ''Information technology consultancy activities'')]"
    unfolding b using s by simp
  have c5: "sic_table db_stale = []" by (simp add: db_stale_def)
  from c1 c2 c3 c4 c5 show ?thesis by blast
qed



end
